theory Spec2Isabelle
  imports Main "HOL-Library.Char_ord" "HOL-Library.List_Lexorder"
begin

section \<open>Strings, numbers and JSON text as the scripts produce them\<close>

text \<open>
  A JavaScript string is modelled as a \<^typ>\<open>string\<close> whose characters are code units
  below 256; a Node \<open>Buffer\<close> is a list of bytes of the same type. Numbers are
  JavaScript doubles in the source; the model keeps the integer-valued ones (timestamps
  from \<open>Date.now()\<close>, frame ordinals) as \<^typ>\<open>int\<close> and \<^typ>\<open>nat\<close>, which is exact
  below \<open>2^53\<close>.
\<close>

type_synonym buffer = string

definition lowerChar :: "char \<Rightarrow> char" where
  "lowerChar c =
     (let n = (of_char c :: nat)
      in if 65 \<le> n \<and> n \<le> 90 then char_of (n + 32)
         else if 192 \<le> n \<and> n \<le> 222 \<and> n \<noteq> 215 then char_of (n + 32)
         else c)"

text \<open>\<open>String.prototype.toLowerCase\<close> on code units below 256.\<close>

definition toLowerCase :: "string \<Rightarrow> string" where
  "toLowerCase s = map lowerChar s"

text \<open>\<open>String.prototype.endsWith\<close>.\<close>

definition endsWith :: "string \<Rightarrow> string \<Rightarrow> bool" where
  "endsWith s suf = (length suf \<le> length s \<and> drop (length s - length suf) s = suf)"

definition isSpace :: "char \<Rightarrow> bool" where
  "isSpace c =
     (let n = (of_char c :: nat)
      in (9 \<le> n \<and> n \<le> 13) \<or> n = 32 \<or> n = 160)"

text \<open>\<open>String.prototype.trim\<close>: white space is removed at both ends.\<close>

definition trim :: "string \<Rightarrow> string" where
  "trim s = rev (dropWhile isSpace (rev (dropWhile isSpace s)))"

definition isDigit :: "char \<Rightarrow> bool" where
  "isDigit c = (48 \<le> (of_char c :: nat) \<and> (of_char c :: nat) \<le> 57)"

definition isHexDigit :: "char \<Rightarrow> bool" where
  "isHexDigit c =
     (let n = (of_char c :: nat)
      in (48 \<le> n \<and> n \<le> 57) \<or> (65 \<le> n \<and> n \<le> 70) \<or> (97 \<le> n \<and> n \<le> 102))"

definition digitChar :: "nat \<Rightarrow> char" where
  "digitChar n = char_of (48 + n)"

text \<open>Decimal text of a non-negative integer, as \<open>String(n)\<close> and \<open>JSON.stringify(n)\<close> give it.\<close>

fun showNat :: "nat \<Rightarrow> string" where
  "showNat n = (if n < 10 then [digitChar n] else showNat (n div 10) @ [digitChar (n mod 10)])"

declare showNat.simps [simp del]

definition showInt :: "int \<Rightarrow> string" where
  "showInt i = (if i < 0 then CHR ''-'' # showNat (nat (- i)) else showNat (nat i))"

text \<open>\<open>Number(s)\<close> for a string of decimal digits.\<close>

definition numberOfDigits :: "string \<Rightarrow> nat" where
  "numberOfDigits s = foldl (\<lambda>acc c. 10 * acc + ((of_char c :: nat) - 48)) 0 s"

definition hexDigitChar :: "nat \<Rightarrow> char" where
  "hexDigitChar n = (if n < 10 then char_of (48 + n) else char_of (87 + n))"

text \<open>
  The escaping \<open>JSON.stringify\<close> applies inside a string: the quote, the backslash,
  the short escapes of the control characters, and \<open>\u00XX\<close> for the other ones.
\<close>

definition escapeChar :: "char \<Rightarrow> string" where
  "escapeChar c =
     (let n = (of_char c :: nat)
      in if n = 34 then [CHR 0x5C, CHR 0x22]
         else if n = 92 then [CHR 0x5C, CHR 0x5C]
         else if n = 8 then [CHR 0x5C, CHR ''b'']
         else if n = 9 then [CHR 0x5C, CHR ''t'']
         else if n = 10 then [CHR 0x5C, CHR ''n'']
         else if n = 12 then [CHR 0x5C, CHR ''f'']
         else if n = 13 then [CHR 0x5C, CHR ''r'']
         else if n < 32 then
           [CHR 0x5C, CHR ''u'', CHR ''0'', CHR ''0'', hexDigitChar (n div 16), hexDigitChar (n mod 16)]
         else [c])"

definition jsonQuote :: "string \<Rightarrow> string" where
  "jsonQuote s = CHR 0x22 # concat (map escapeChar s) @ [CHR 0x22]"

text \<open>
  \<open>buildMessageString\<close>: \<open>JSON.stringify\<close> of the object with the three keys in the
  order the source writes them.
\<close>

definition buildMessageString :: "int \<Rightarrow> nat \<Rightarrow> string \<Rightarrow> string" where
  "buildMessageString startTimestampMs frameNumber frameHashSha256 =
     ''{'' @ jsonQuote ''startTimestampMs'' @ '':'' @ showInt startTimestampMs @
     '','' @ jsonQuote ''frameNumber'' @ '':'' @ showNat frameNumber @
     '','' @ jsonQuote ''frameHashSha256'' @ '':'' @ jsonQuote frameHashSha256 @ ''}''"

text \<open>
  The whole-file message, written inline in both whole-file scripts as
  \<open>JSON.stringify({ timestampMs, fileHashSha256 })\<close>.
\<close>

definition buildFileMessage :: "int \<Rightarrow> string \<Rightarrow> string" where
  "buildFileMessage timestampMs fileHashSha256 =
     ''{'' @ jsonQuote ''timestampMs'' @ '':'' @ showInt timestampMs @
     '','' @ jsonQuote ''fileHashSha256'' @ '':'' @ jsonQuote fileHashSha256 @ ''}''"

definition hexVal :: "char \<Rightarrow> nat option" where
  "hexVal c =
     (let n = (of_char c :: nat)
      in if 48 \<le> n \<and> n \<le> 57 then Some (n - 48)
         else if 65 \<le> n \<and> n \<le> 70 then Some (n - 55)
         else if 97 \<le> n \<and> n \<le> 102 then Some (n - 87)
         else None)"

text \<open>\<open>Buffer.from(s, 'hex')\<close>: pairs of hex digits, up to the first pair that is not one.\<close>

fun bufferFromHex :: "string \<Rightarrow> buffer" where
  "bufferFromHex (a # b # rest) =
     (case hexVal a of
        None \<Rightarrow> []
      | Some x \<Rightarrow>
          (case hexVal b of
             None \<Rightarrow> []
           | Some y \<Rightarrow> char_of (16 * x + y) # bufferFromHex rest))"
| "bufferFromHex _ = []"

section \<open>The frame pipeline: data model\<close>

datatype error =
    InputVideoNotFound
  | ReadFailed string
  | FfmpegFailed
  | LibraryError
  | NoFramesExtracted
  | FrameCountMismatch
  | FrameFilenameMismatch nat
  | FrameNumberOutOfOrder nat
  | HashMismatchFor string
  | MessageMismatchFor string
  | SignatureVerificationFailed string
  | NegativeInvariantBroken
  | NegativeUnexpectedlySucceeded
  | NegativeDidNotFail
  | MissingCommentPayload
  | InvalidCommentPayload
  | FileHashMismatch
  | MalformedTimestamp
  | MalformedSignerAddress
  | SignatureDoesNotMatch

text \<open>One element of the \<open>frames\<close> array of the manifest.\<close>

record frameRecord =
  frameNumber :: nat
  filename :: string
  frameHashSha256 :: string
  message :: string
  messageKeccak256 :: string
  signature :: string
  sigR :: string
  sigS :: string
  sigV :: nat

text \<open>
  The \<open>signer\<close> object of the manifest. A manifest read back from disk may lack the
  public key, hence the option.
\<close>

record signerInfo =
  address :: string
  publicKey :: "string option"
  algo :: string
  messagePrefix :: string
  hash :: string
  eip :: string

record manifest =
  schema :: string
  inputVideo :: string
  inputDir :: string
  outputDir :: string
  startTimestampMs :: int
  signer :: signerInfo
  frames :: "frameRecord list"

text \<open>What \<open>signMessage\<close> is given: a string, or the bytes of a buffer.\<close>

datatype signable = MsgText string | MsgBytes buffer

text \<open>
  The libraries the scripts call and the repository does not contain: the wallet and the
  recovery functions of \<open>ethers\<close>, Node's SHA-256, and the JSON text of a manifest. They
  are parameters of the model. A call that raises returns \<^const>\<open>None\<close>.
\<close>

record libs =
  walletAddress :: string
  walletPublicKey :: string
  signMessage :: "signable \<Rightarrow> string option"
  splitSignature :: "string \<Rightarrow> (string \<times> string \<times> nat) option"
  hashMessage :: "signable \<Rightarrow> string"
  verifyMessage :: "signable \<Rightarrow> string \<Rightarrow> string option"
  recoverPublicKey :: "string \<Rightarrow> string \<Rightarrow> string option"
  sha256Hex :: "buffer \<Rightarrow> string"
  manifestJson :: "manifest \<Rightarrow> string"

text \<open>An entry of the frame directory; an entry that cannot be read has no content.\<close>

record dirent =
  entryName :: string
  entryIsFile :: bool
  entryContent :: "buffer option"

definition isPngFile :: "dirent \<Rightarrow> bool" where
  "isPngFile e = (entryIsFile e \<and> endsWith (toLowerCase (entryName e)) ''.png'')"

definition listPngFilesSorted :: "dirent list \<Rightarrow> string list" where
  "listPngFilesSorted dirPath = sort (map entryName (filter isPngFile dirPath))"

definition readFileBuffer :: "dirent list \<Rightarrow> string \<Rightarrow> error + buffer" where
  "readFileBuffer dirPath fname =
     (case find (\<lambda>e. entryName e = fname) dirPath of
        None \<Rightarrow> Inl (ReadFailed fname)
      | Some e \<Rightarrow>
          (case entryContent e of
             None \<Rightarrow> Inl (ReadFailed fname)
           | Some buf \<Rightarrow> Inr buf))"

record signed =
  signedSignature :: string
  signedR :: string
  signedS :: string
  signedV :: nat
  signedKeccak :: string

definition signEip191 :: "libs \<Rightarrow> string \<Rightarrow> error + signed" where
  "signEip191 w messageString =
     (case signMessage w (MsgText messageString) of
        None \<Rightarrow> Inl LibraryError
      | Some sg \<Rightarrow>
          (case splitSignature w sg of
             None \<Rightarrow> Inl LibraryError
           | Some (r, s, v) \<Rightarrow>
               Inr \<lparr>signedSignature = sg, signedR = r, signedS = s, signedV = v,
                    signedKeccak = hashMessage w (MsgText messageString)\<rparr>))"

record verdict =
  addrOk :: bool
  pubOk :: bool
  recoveredAddress :: string
  recoveredPublicKey :: string

text \<open>
  \<open>verifyEip191\<close>. The expected public key is optional; JavaScript takes the empty
  string for an absent one as well (\<open>expectedPublicKeyHex ? ... : true\<close>).
\<close>

definition verifyEip191 ::
  "libs \<Rightarrow> string \<Rightarrow> string \<Rightarrow> string \<Rightarrow> string option \<Rightarrow> error + verdict" where
  "verifyEip191 w expectedAddress messageString sg expectedPublicKeyHex =
     (case verifyMessage w (MsgText messageString) sg of
        None \<Rightarrow> Inl LibraryError
      | Some recAddr \<Rightarrow>
          (case recoverPublicKey w (hashMessage w (MsgText messageString)) sg of
             None \<Rightarrow> Inl LibraryError
           | Some recPub \<Rightarrow>
               Inr \<lparr>addrOk = (toLowerCase recAddr = toLowerCase expectedAddress),
                    pubOk =
                      (case expectedPublicKeyHex of
                         None \<Rightarrow> True
                       | Some pk \<Rightarrow>
                           if pk = [] then True
                           else toLowerCase recPub = toLowerCase pk),
                    recoveredAddress = recAddr,
                    recoveredPublicKey = recPub\<rparr>))"

section \<open>The frame pipeline: operations\<close>

text \<open>
  The signing loop of \<open>main\<close> (\<open>for (let i = 0; i < frameFiles.length; i++)\<close>): \<open>i\<close> is
  the index, the third list is the array \<open>frames\<close> built so far. A read, a digest or a
  signing call that raises ends the loop with the error.
\<close>

fun signLoop ::
  "libs \<Rightarrow> dirent list \<Rightarrow> int \<Rightarrow> nat \<Rightarrow> string list \<Rightarrow> frameRecord list
     \<Rightarrow> error + frameRecord list" where
  "signLoop w dir ts i [] acc = Inr acc"
| "signLoop w dir ts i (fname # rest) acc =
     (case readFileBuffer dir fname of
        Inl e \<Rightarrow> Inl e
      | Inr buf \<Rightarrow>
          (let digest = sha256Hex w buf;
               messageString = buildMessageString ts (i + 1) digest
           in case signEip191 w messageString of
                Inl e \<Rightarrow> Inl e
              | Inr sg \<Rightarrow>
                  signLoop w dir ts (i + 1) rest
                    (acc @ [\<lparr>frameNumber = i + 1, filename = fname, frameHashSha256 = digest,
                             message = messageString, messageKeccak256 = signedKeccak sg,
                             signature = signedSignature sg, sigR = signedR sg,
                             sigS = signedS sg, sigV = signedV sg\<rparr>])))"

definition buildManifest :: "libs \<Rightarrow> int \<Rightarrow> frameRecord list \<Rightarrow> manifest" where
  "buildManifest w ts fs =
     \<lparr>schema = ''crypto-video-frames-manifest@1'',
      inputVideo = ''test.mp4'',
      inputDir = ''input'',
      outputDir = ''output'',
      startTimestampMs = ts,
      signer = \<lparr>address = walletAddress w, publicKey = Some (walletPublicKey w),
                algo = ''secp256k1'', messagePrefix = ''Ethereum Signed Message'',
                hash = ''keccak256'', eip = ''191''\<rparr>,
      frames = fs\<rparr>"

text \<open>
  The files the frame script touches. The manifest file holds a manifest
  (\<open>writeJson\<close> followed by \<open>readJson\<close> returns the object that was written); its bytes
  are \<^const>\<open>manifestJson\<close> of it. \<open>certificateSignature\<close> is the signature line the
  script prints. Creating and emptying directories and writing files are taken to
  succeed; reading a file that is absent or unreadable fails.
\<close>

record world =
  videoPresent :: bool
  inputFrames :: "dirent list"
  manifestFile :: "manifest option"
  manifestHashTxt :: "string option"
  certificateSignature :: "string option"
  verifiableCopyWritten :: bool

text \<open>
  What one run meets outside the script: the clock, the frames the extraction writes
  (\<^const>\<open>None\<close> when the tool exits non-zero), and whether the last metadata write
  succeeds.
\<close>

record run =
  clockMs :: int
  extractedFrames :: "dirent list option"
  metadataWriteOk :: bool

text \<open>The first loop of the verify step: names and ordinals against the listing.\<close>

fun checkFrameSet :: "nat \<Rightarrow> string list \<Rightarrow> frameRecord list \<Rightarrow> error + unit" where
  "checkFrameSet i names [] = Inr ()"
| "checkFrameSet i [] (f # fs) = Inl (FrameFilenameMismatch i)"
| "checkFrameSet i (expectedName # names) (f # fs) =
     (if filename f \<noteq> expectedName then Inl (FrameFilenameMismatch i)
      else if frameNumber f \<noteq> i + 1 then Inl (FrameNumberOutOfOrder i)
      else checkFrameSet (i + 1) names fs)"

text \<open>The second loop of the verify step: digest, message and signature of each frame.\<close>

fun verifyLoop ::
  "libs \<Rightarrow> dirent list \<Rightarrow> int \<Rightarrow> string \<Rightarrow> string option \<Rightarrow> frameRecord list
     \<Rightarrow> error + unit" where
  "verifyLoop w dir verifyStartTs expectedAddress expectedPublicKey [] = Inr ()"
| "verifyLoop w dir verifyStartTs expectedAddress expectedPublicKey (f # fs) =
     (case readFileBuffer dir (filename f) of
        Inl e \<Rightarrow> Inl e
      | Inr buf \<Rightarrow>
          (let recomputedSha = sha256Hex w buf
           in if recomputedSha \<noteq> frameHashSha256 f then Inl (HashMismatchFor (filename f))
              else
                (let recomputedMsg = buildMessageString verifyStartTs (frameNumber f) recomputedSha
                 in if recomputedMsg \<noteq> message f then Inl (MessageMismatchFor (filename f))
                    else
                      (case verifyEip191 w expectedAddress recomputedMsg (signature f)
                              expectedPublicKey of
                         Inl e \<Rightarrow> Inl e
                       | Inr vd \<Rightarrow>
                           if \<not> addrOk vd \<or> \<not> pubOk vd
                           then Inl (SignatureVerificationFailed (filename f))
                           else verifyLoop w dir verifyStartTs expectedAddress
                                  expectedPublicKey fs))))"

text \<open>The frame-set check: the count, then \<^const>\<open>checkFrameSet\<close>.\<close>

definition frameSetCheck :: "dirent list \<Rightarrow> manifest \<Rightarrow> error + unit" where
  "frameSetCheck dir loadedManifest =
     (let inputFramesNow = listPngFilesSorted dir
      in if length inputFramesNow \<noteq> length (frames loadedManifest) then Inl FrameCountMismatch
         else checkFrameSet 0 inputFramesNow (frames loadedManifest))"

text \<open>
  The step \<open>Verify frames and signatures\<close>: it returns the loaded manifest when every
  check passes (the state Accepted) and the first error otherwise (Rejected).
\<close>

definition verifyStep :: "libs \<Rightarrow> world \<Rightarrow> error + manifest" where
  "verifyStep w st =
     (case manifestFile st of
        None \<Rightarrow> Inl (ReadFailed ''frames_manifest.json'')
      | Some loadedManifest \<Rightarrow>
          (case frameSetCheck (inputFrames st) loadedManifest of
             Inl e \<Rightarrow> Inl e
           | Inr u \<Rightarrow>
               (case verifyLoop w (inputFrames st) (startTimestampMs loadedManifest)
                       (address (signer loadedManifest)) (publicKey (signer loadedManifest))
                       (frames loadedManifest) of
                  Inl e \<Rightarrow> Inl e
                | Inr u \<Rightarrow> Inr loadedManifest)))"

text \<open>The loop inside the \<open>try\<close> block of the negative verification.\<close>

fun negativeLoop ::
  "libs \<Rightarrow> dirent list \<Rightarrow> int \<Rightarrow> string \<Rightarrow> string option \<Rightarrow> frameRecord list
     \<Rightarrow> error + unit" where
  "negativeLoop w dir badStartTs addr pk [] = Inr ()"
| "negativeLoop w dir badStartTs addr pk (f # fs) =
     (case readFileBuffer dir (filename f) of
        Inl e \<Rightarrow> Inl e
      | Inr buf \<Rightarrow>
          (let recomputedSha = sha256Hex w buf;
               recomputedMsg = buildMessageString badStartTs (frameNumber f) recomputedSha
           in if recomputedMsg = message f then Inl NegativeInvariantBroken
              else
                (case verifyEip191 w addr recomputedMsg (signature f) pk of
                   Inl e \<Rightarrow> Inl e
                 | Inr vd \<Rightarrow>
                     if addrOk vd \<and> pubOk vd then Inl NegativeUnexpectedlySucceeded
                     else negativeLoop w dir badStartTs addr pk fs)))"

text \<open>
  The step \<open>Negative verification (bad start timestamp)\<close>: the flag is set after the
  loop and in the \<open>catch\<close> block alike, then tested.
\<close>

definition negativeStep :: "libs \<Rightarrow> world \<Rightarrow> manifest \<Rightarrow> error + unit" where
  "negativeStep w st loaded =
     (let badStartTs = startTimestampMs loaded + 1;
          negativeFailedAsExpected =
            (case negativeLoop w (inputFrames st) badStartTs (address (signer loaded))
                    (publicKey (signer loaded)) (frames loaded) of
               Inr u \<Rightarrow> True
             | Inl e \<Rightarrow> True)
      in if negativeFailedAsExpected then Inr () else Inl NegativeDidNotFail)"

definition joinLines :: "string list \<Rightarrow> string" where
  "joinLines ls = concat (map (\<lambda>l. l @ [CHR 0x0A]) ls)"

text \<open>
  The step \<open>Sign manifest hash and write manifest_hash.txt\<close>: the SHA-256 of the
  manifest file, its bytes signed, the signature printed and the three lines written.
\<close>

definition signManifestHashStep :: "libs \<Rightarrow> int \<Rightarrow> world \<Rightarrow> error + world" where
  "signManifestHashStep w ts st =
     (case manifestFile st of
        None \<Rightarrow> Inl (ReadFailed ''frames_manifest.json'')
      | Some m \<Rightarrow>
          (let manifestSha256Hex = sha256Hex w (manifestJson w m);
               manifestHashBytes = bufferFromHex manifestSha256Hex
           in case signMessage w (MsgBytes manifestHashBytes) of
                None \<Rightarrow> Inl LibraryError
              | Some manifestSignature \<Rightarrow>
                  (case splitSignature w manifestSignature of
                     None \<Rightarrow> Inl LibraryError
                   | Some rsv \<Rightarrow>
                       Inr (st\<lparr>certificateSignature := Some manifestSignature,
                               manifestHashTxt :=
                                 Some (joinLines [''test.mp4'', showInt ts, manifestSha256Hex])\<rparr>))))"

text \<open>
  \<open>main\<close> of the frame script: the world it leaves, and the error that set the exit
  code to 1, if any.
\<close>

definition main :: "libs \<Rightarrow> run \<Rightarrow> world \<Rightarrow> world \<times> error option" where
  "main w rn st0 =
     (if \<not> videoPresent st0 then (st0, Some InputVideoNotFound)
      else
        (let ts = clockMs rn;
             st1 = st0\<lparr>inputFrames := []\<rparr>
         in case extractedFrames rn of
              None \<Rightarrow> (st1, Some FfmpegFailed)
            | Some extracted \<Rightarrow>
                (let st2 = st1\<lparr>inputFrames := extracted\<rparr>;
                     frameFiles = listPngFilesSorted (inputFrames st2)
                 in if frameFiles = [] then (st2, Some NoFramesExtracted)
                    else
                      (case signLoop w (inputFrames st2) ts 0 frameFiles [] of
                         Inl e \<Rightarrow> (st2, Some e)
                       | Inr fs \<Rightarrow>
                           (let st3 = st2\<lparr>manifestFile := Some (buildManifest w ts fs)\<rparr>
                            in case verifyStep w st3 of
                                 Inl e \<Rightarrow> (st3, Some e)
                               | Inr loaded \<Rightarrow>
                                   (case negativeStep w st3 loaded of
                                      Inl e \<Rightarrow> (st3, Some e)
                                    | Inr u \<Rightarrow>
                                        (case signManifestHashStep w ts st3 of
                                           Inl e \<Rightarrow> (st3, Some e)
                                         | Inr st4 \<Rightarrow>
                                             if metadataWriteOk rn
                                             then (st4\<lparr>verifiableCopyWritten := True\<rparr>, None)
                                             else (st4, Some FfmpegFailed))))))))"

section \<open>The whole-file pipeline\<close>

text \<open>
  A media container: its metadata tags (keys in lower case, as the scripts read them)
  and its encoded streams.
\<close>

record container =
  tags :: "string \<rightharpoonup> string"
  streams :: buffer

text \<open>The object \<open>{ artist, album, title, comment }\<close> the two writers take; a key may be absent.\<close>

record tagArgs =
  artistArg :: "string option"
  albumArg :: "string option"
  titleArg :: "string option"
  commentArg :: "string option"

definition onlyComment :: "string \<Rightarrow> tagArgs" where
  "onlyComment v = \<lparr>artistArg = None, albumArg = None, titleArg = None, commentArg = Some v\<rparr>"

text \<open>The \<open>-metadata key=value\<close> arguments, in the order the writers push them.\<close>

definition metadataArgs :: "tagArgs \<Rightarrow> (string \<times> string) list" where
  "metadataArgs a =
     (case artistArg a of None \<Rightarrow> [] | Some v \<Rightarrow> [(''artist'', v)]) @
     (case albumArg a of None \<Rightarrow> [] | Some v \<Rightarrow> [(''album'', v)]) @
     (case titleArg a of None \<Rightarrow> [] | Some v \<Rightarrow> [(''title'', v)]) @
     (case commentArg a of None \<Rightarrow> [] | Some v \<Rightarrow> [(''comment'', v)])"

text \<open>
  Modelled from the spec: the tag read/write collaborator (the \<open>ffmpeg\<close> binary, which
  the repository calls and does not contain). Given a container, the tags to set and a
  flag that clears the existing tags (\<open>-map_metadata -1\<close>; \<open>-map_metadata 0\<close> keeps them),
  it yields a container with the same streams (\<open>-c copy\<close>) and the requested tags set.
\<close>

definition rewriteTags :: "bool \<Rightarrow> (string \<times> string) list \<Rightarrow> container \<Rightarrow> container" where
  "rewriteTags clearExisting newTags c =
     \<lparr>tags = foldl (\<lambda>m kv. m(fst kv \<mapsto> snd kv))
               (if clearExisting then Map.empty else tags c) newTags,
      streams = streams c\<rparr>"

text \<open>
  A JSON value as \<open>JSON.parse\<close> returns it; an object lists its own properties, each key
  once. Numbers are the integer-valued ones.
\<close>

datatype json =
    JNull
  | JBool bool
  | JNum int
  | JStr string
  | JArr "json list"
  | JObj "(string \<times> json) list"

text \<open>
  What the whole-file scripts meet outside: whether the tool exits with 0 when it
  rewrites the tags of a container, the text the tool prints for a container with
  \<open>-f ffmetadata -\<close> (\<^const>\<open>None\<close> when it exits non-zero), the bytes of a container
  file, and \<open>JSON.parse\<close> (\<^const>\<open>None\<close> when it raises).
\<close>

record media =
  ffmpegExitsOk :: "container \<Rightarrow> bool"
  ffmetadataText :: "container \<Rightarrow> string option"
  fileBytes :: "container \<Rightarrow> buffer"
  jsonParse :: "string \<Rightarrow> json option"

definition runFfmpeg :: "media \<Rightarrow> bool \<Rightarrow> tagArgs \<Rightarrow> container option \<Rightarrow> error + container" where
  "runFfmpeg t clearExisting a inputFile =
     (case inputFile of
        None \<Rightarrow> Inl FfmpegFailed
      | Some c \<Rightarrow>
          if ffmpegExitsOk t c then Inr (rewriteTags clearExisting (metadataArgs a) c)
          else Inl FfmpegFailed)"

text \<open>\<open>writeMetadata\<close>: the original tags are kept, the given keys overridden.\<close>

definition writeMetadata :: "media \<Rightarrow> container option \<Rightarrow> tagArgs \<Rightarrow> error + container" where
  "writeMetadata t inputPath a = runFfmpeg t False a inputPath"

text \<open>\<open>writeCanonicalMetadata\<close>: every tag is stripped, then the given keys are set.\<close>

definition writeCanonicalMetadata :: "media \<Rightarrow> container option \<Rightarrow> tagArgs \<Rightarrow> error + container" where
  "writeCanonicalMetadata t inputPath a = runFfmpeg t True a inputPath"

text \<open>The payload of the comment tag: \<open>JSON.stringify\<close> of the four fields in source order.\<close>

definition payloadText :: "int \<Rightarrow> string \<Rightarrow> string \<Rightarrow> string \<Rightarrow> string" where
  "payloadText ts fileHashHex signerAddr sg =
     ''{'' @ jsonQuote ''timestampMs'' @ '':'' @ showInt ts @
     '','' @ jsonQuote ''fileHashSha256'' @ '':'' @ jsonQuote fileHashHex @
     '','' @ jsonQuote ''signerAddress'' @ '':'' @ jsonQuote signerAddr @
     '','' @ jsonQuote ''signature'' @ '':'' @ jsonQuote sg @ ''}''"

text \<open>The files of the whole-file signer, one field for each path it uses.\<close>

record videoWorld =
  inputVideoFile :: "container option"
  tempPath1 :: "container option"
  tempPath2 :: "container option"
  finalPath :: "container option"
  videoHashTxt :: "string option"

text \<open>
  \<open>main\<close> of \<open>sign_video.js\<close>: the files it leaves and the error that set the exit code,
  if any. The last step removes the canonical copy and writes the payload onto the
  copy of the original.
\<close>

definition signVideoMain :: "libs \<Rightarrow> media \<Rightarrow> int \<Rightarrow> videoWorld \<Rightarrow> videoWorld \<times> error option" where
  "signVideoMain w t ts st0 =
     (case inputVideoFile st0 of
        None \<Rightarrow> (st0, Some InputVideoNotFound)
      | Some original \<Rightarrow>
        (let st1 = st0\<lparr>tempPath1 := Some original\<rparr>
         in case writeCanonicalMetadata t (tempPath1 st1) (onlyComment (showInt ts)) of
              Inl e \<Rightarrow> (st1, Some e)
            | Inr canonical \<Rightarrow>
                (let st2 = st1\<lparr>tempPath2 := Some canonical\<rparr>;
                     fileHashHex = sha256Hex w (fileBytes t canonical);
                     messageString = buildFileMessage ts fileHashHex
                 in case signMessage w (MsgText messageString) of
                      None \<Rightarrow> (st2, Some LibraryError)
                    | Some sg \<Rightarrow>
                        (case splitSignature w sg of
                           None \<Rightarrow> (st2, Some LibraryError)
                         | Some parts \<Rightarrow>
                             (let st3 = st2\<lparr>videoHashTxt :=
                                     Some (joinLines [''test.mp4'', showInt ts, fileHashHex])\<rparr>;
                                  payload = payloadText ts fileHashHex (walletAddress w) sg;
                                  st4 = st3\<lparr>tempPath2 := None\<rparr>
                              in case writeMetadata t (tempPath1 st4) (onlyComment payload) of
                                   Inl e \<Rightarrow> (st4, Some e)
                                 | Inr delivered \<Rightarrow>
                                     (st4\<lparr>tempPath1 := None, tempPath2 := None,
                                          finalPath := Some delivered\<rparr>, None))))))"

text \<open>\<open>String(v)\<close> for a JSON value; in an array, \<open>null\<close> elements give the empty string.\<close>

fun jsString :: "json \<Rightarrow> string" and jsJoin :: "json list \<Rightarrow> string" where
  "jsString JNull = ''null''"
| "jsString (JBool b) = (if b then ''true'' else ''false'')"
| "jsString (JNum n) = showInt n"
| "jsString (JStr s) = s"
| "jsString (JArr xs) = jsJoin xs"
| "jsString (JObj kvs) = ''[object Object]''"
| "jsJoin [] = []"
| "jsJoin [x] = (if x = JNull then [] else jsString x)"
| "jsJoin (x # y # ys) = (if x = JNull then [] else jsString x) @ '','' @ jsJoin (y # ys)"

text \<open>\<open>String(payloadJson.key)\<close>: an absent property reads as \<open>undefined\<close>.\<close>

definition fieldString :: "json \<Rightarrow> string \<Rightarrow> string" where
  "fieldString v k =
     (case v of
        JObj kvs \<Rightarrow> (case map_of kvs k of None \<Rightarrow> ''undefined'' | Some x \<Rightarrow> jsString x)
      | _ \<Rightarrow> ''undefined'')"

text \<open>\<open>!parsed || typeof parsed !== 'object'\<close> is false for arrays and objects only.\<close>

fun isObjectValue :: "json \<Rightarrow> bool" where
  "isObjectValue (JArr xs) = True"
| "isObjectValue (JObj kvs) = True"
| "isObjectValue v = False"

text \<open>The object \<open>{ artist, album, comment }\<close> that \<open>readMetadataTags\<close> resolves to.\<close>

record metadataTags =
  artist :: string
  album :: string
  comment :: string

text \<open>\<open>out.split(/\r?\n/)\<close>: the first argument is the line read so far, reversed.\<close>

fun splitLines :: "string \<Rightarrow> string \<Rightarrow> string list" where
  "splitLines cur [] = [rev cur]"
| "splitLines cur (c # cs) =
     (if c = CHR 0x0A then rev cur # splitLines [] cs
      else if c = CHR 0x0D \<and> take 1 cs = [CHR 0x0A] then rev cur # splitLines [] (drop 1 cs)
      else splitLines (c # cur) cs)"

definition isKeyChar :: "char \<Rightarrow> bool" where
  "isKeyChar c =
     (let n = (of_char c :: nat)
      in (48 \<le> n \<and> n \<le> 57) \<or> (65 \<le> n \<and> n \<le> 90) \<or> (97 \<le> n \<and> n \<le> 122) \<or> n = 95)"

text \<open>
  \<open>line.match(/^([A-Za-z0-9_]+)=(.*)$/)\<close>: the key, and the value behind the first
  \<open>=\<close>; the dot matches no line terminator, so a value with a carriage return or a
  line feed in it does not match.
\<close>

definition matchTagLine :: "string \<Rightarrow> (string \<times> string) option" where
  "matchTagLine line =
     (case dropWhile isKeyChar line of
        [] \<Rightarrow> None
      | c # val \<Rightarrow>
          if takeWhile isKeyChar line \<noteq> [] \<and> c = CHR ''='' \<and>
             list_all (\<lambda>d. d \<noteq> CHR 0x0A \<and> d \<noteq> CHR 0x0D) val
          then Some (takeWhile isKeyChar line, val)
          else None)"

text \<open>The loop \<open>for (const line of lines)\<close> of \<open>readMetadataTags\<close>.\<close>

fun parseTagLines :: "string list \<Rightarrow> metadataTags \<Rightarrow> metadataTags" where
  "parseTagLines [] acc = acc"
| "parseTagLines (line # ls) acc =
     (case matchTagLine line of
        None \<Rightarrow> parseTagLines ls acc
      | Some (k, val) \<Rightarrow>
          (let key = toLowerCase k;
               acc1 = (if key = ''artist'' then acc\<lparr>artist := val\<rparr> else acc);
               acc2 = (if key = ''album'' then acc1\<lparr>album := val\<rparr> else acc1);
               acc3 = (if key = ''comment'' then acc2\<lparr>comment := val\<rparr> else acc2)
           in parseTagLines ls acc3))"

text \<open>
  \<open>readMetadataTags\<close>: the tool's output is split into lines and the last values of
  the three keys are kept, as the tool printed them (its escapes are not undone).
\<close>

definition readMetadataTags :: "media \<Rightarrow> container \<Rightarrow> error + metadataTags" where
  "readMetadataTags t filePath =
     (case ffmetadataText t filePath of
        None \<Rightarrow> Inl FfmpegFailed
      | Some out \<Rightarrow>
          Inr (parseTagLines (splitLines [] out) \<lparr>artist = [], album = [], comment = []\<rparr>))"

text \<open>The step \<open>Read comment JSON metadata\<close>.\<close>

definition readCommentStep :: "media \<Rightarrow> container \<Rightarrow> error + json" where
  "readCommentStep t temp1 =
     (case readMetadataTags t temp1 of
        Inl e \<Rightarrow> Inl e
      | Inr tgs \<Rightarrow>
          (let payload = trim (comment tgs)
           in if payload = [] then Inl MissingCommentPayload
              else
                (case jsonParse t payload of
                   None \<Rightarrow> Inl InvalidCommentPayload
                 | Some parsed \<Rightarrow>
                     if isObjectValue parsed then Inr parsed else Inl InvalidCommentPayload)))"

text \<open>The step \<open>Recompute file hash (timestamp in comment) and compare\<close>.\<close>

definition hashCompareStep :: "libs \<Rightarrow> media \<Rightarrow> container \<Rightarrow> string \<Rightarrow> string \<Rightarrow> error + unit" where
  "hashCompareStep w t temp1 tsStr fileHashExpected =
     (case writeCanonicalMetadata t (Some temp1) (onlyComment tsStr) of
        Inl e \<Rightarrow> Inl e
      | Inr temp2 \<Rightarrow>
          (let actualHash = sha256Hex w (fileBytes t temp2)
           in if toLowerCase actualHash \<noteq> toLowerCase fileHashExpected then Inl FileHashMismatch
              else Inr ()))"

text \<open>The regular expression \<open>/^\d{10,}$/\<close>.\<close>

definition timestampShape :: "string \<Rightarrow> bool" where
  "timestampShape s = (10 \<le> length s \<and> list_all isDigit s)"

text \<open>The regular expression \<open>/^0x[a-fA-F0-9]{40}$/\<close>.\<close>

definition addressShape :: "string \<Rightarrow> bool" where
  "addressShape s = (length s = 42 \<and> take 2 s = ''0x'' \<and> list_all isHexDigit (drop 2 s))"

text \<open>The step \<open>Verify signature over {timestampMs,fileHashSha256}\<close>.\<close>

definition signatureStep :: "libs \<Rightarrow> string \<Rightarrow> string \<Rightarrow> string \<Rightarrow> string \<Rightarrow> error + unit" where
  "signatureStep w tsStr fileHashExpected signerAddr sg =
     (let msg = buildFileMessage (int (numberOfDigits tsStr)) fileHashExpected
      in case verifyMessage w (MsgText msg) sg of
           None \<Rightarrow> Inl LibraryError
         | Some recovered \<Rightarrow>
             if toLowerCase recovered \<noteq> toLowerCase signerAddr then Inl SignatureDoesNotMatch
             else Inr ())"

text \<open>The steps of \<open>mainWith\<close> after the four strings are taken from the payload.\<close>

definition verifyFields ::
  "libs \<Rightarrow> media \<Rightarrow> container \<Rightarrow> string \<Rightarrow> string \<Rightarrow> string \<Rightarrow> string \<Rightarrow> error + unit" where
  "verifyFields w t temp1 tsStr fileHashExpected signerAddr sg =
     (case hashCompareStep w t temp1 tsStr fileHashExpected of
        Inl e \<Rightarrow> Inl e
      | Inr u \<Rightarrow>
          if \<not> timestampShape tsStr then Inl MalformedTimestamp
          else if \<not> addressShape signerAddr then Inl MalformedSignerAddress
          else signatureStep w tsStr fileHashExpected signerAddr sg)"

text \<open>
  \<open>mainWith\<close> of the whole-file verifier on the container found at \<open>filePath\<close>; the
  working copy \<open>temp1\<close> has the same content. \<^term>\<open>Inr ()\<close> is the accepted run.
\<close>

definition mainWith :: "libs \<Rightarrow> media \<Rightarrow> container option \<Rightarrow> error + unit" where
  "mainWith w t filePath =
     (case filePath of
        None \<Rightarrow> Inl (ReadFailed ''filePath'')
      | Some temp1 \<Rightarrow>
          (case readCommentStep t temp1 of
             Inl e \<Rightarrow> Inl e
           | Inr payloadJson \<Rightarrow>
               verifyFields w t temp1
                 (fieldString payloadJson ''timestampMs'')
                 (fieldString payloadJson ''fileHashSha256'')
                 (fieldString payloadJson ''signerAddress'')
                 (fieldString payloadJson ''signature'')))"

section \<open>Sample inputs\<close>

text \<open>
  A small stand-in for the libraries, to run the model on concrete inputs: a signature
  is \<open>0x\<close> and the hex dump of the signed message behind a tag, recovery gives the
  wallet's address and key exactly for the message that was signed, and the digest is
  the hex dump of the bytes.
\<close>

definition byteHex :: "char \<Rightarrow> string" where
  "byteHex c = [hexDigitChar ((of_char c :: nat) div 16), hexDigitChar ((of_char c :: nat) mod 16)]"

definition sampleSig :: "signable \<Rightarrow> string" where
  "sampleSig m =
     ''0x'' @ concat (map byteHex (case m of MsgText s \<Rightarrow> ''T:'' @ s | MsgBytes b \<Rightarrow> ''B:'' @ b))"

definition sampleAddress :: string where
  "sampleAddress = ''0xaBaBaBaBaBaBaBaBaBaBaBaBaBaBaBaBaBaBaBaB''"

definition otherAddress :: string where
  "otherAddress = ''0x0000000000000000000000000000000000000000''"

definition sampleLibs :: libs where
  "sampleLibs =
     \<lparr>walletAddress = sampleAddress,
      walletPublicKey = ''0x04cD'',
      signMessage = (\<lambda>m. Some (sampleSig m)),
      splitSignature = (\<lambda>sg. Some (''r'', ''s'', 27)),
      hashMessage = sampleSig,
      verifyMessage = (\<lambda>m sg. Some (if sg = sampleSig m then sampleAddress else otherAddress)),
      recoverPublicKey = (\<lambda>h sg. Some (if sg = h then ''0x04cD'' else ''0x04'')),
      sha256Hex = (\<lambda>b. concat (map byteHex b)),
      manifestJson = (\<lambda>m. showInt (startTimestampMs m) @ concat (map message (frames m)))\<rparr>"


text \<open>Libraries whose signing raises on every message.\<close>

definition failingLibs :: libs where
  "failingLibs = sampleLibs\<lparr>signMessage := (\<lambda>m. None)\<rparr>"

definition sampleDir :: "dirent list" where
  "sampleDir =
     [\<lparr>entryName = ''frame_000002.png'', entryIsFile = True, entryContent = Some ''jk''\<rparr>,
      \<lparr>entryName = ''frame_000001.PNG'', entryIsFile = True, entryContent = Some ''hi''\<rparr>,
      \<lparr>entryName = ''notes.txt'', entryIsFile = True, entryContent = Some ''x''\<rparr>]"

text \<open>The same directory with a second frame that cannot be read.\<close>

definition brokenDir :: "dirent list" where
  "brokenDir =
     [\<lparr>entryName = ''frame_000002.png'', entryIsFile = True, entryContent = None\<rparr>,
      \<lparr>entryName = ''frame_000001.PNG'', entryIsFile = True, entryContent = Some ''hi''\<rparr>]"

definition emptyWorld :: world where
  "emptyWorld =
     \<lparr>videoPresent = True, inputFrames = [], manifestFile = None, manifestHashTxt = None,
      certificateSignature = None, verifiableCopyWritten = False\<rparr>"

definition sampleRun :: run where
  "sampleRun = \<lparr>clockMs = 1000, extractedFrames = Some sampleDir, metadataWriteOk = True\<rparr>"

definition brokenRun :: run where
  "brokenRun = \<lparr>clockMs = 1000, extractedFrames = Some brokenDir, metadataWriteOk = True\<rparr>"

definition sampleVideo :: container where
  "sampleVideo =
     \<lparr>tags = [''artist'' \<mapsto> ''Someone'', ''comment'' \<mapsto> ''old note''], streams = ''jk''\<rparr>"

definition sampleVideoWorld :: videoWorld where
  "sampleVideoWorld =
     \<lparr>inputVideoFile = Some sampleVideo, tempPath1 = None, tempPath2 = None,
      finalPath = None, videoHashTxt = None\<rparr>"

text \<open>
  The digest, signature and payload the whole-file signer computes for
  \<^const>\<open>sampleVideo\<close> at the timestamp 1700000000000 under \<^const>\<open>sampleLibs\<close>.
\<close>

definition sampleFileHash :: string where
  "sampleFileHash = ''313730303030303030303030307c6a6b''"

definition sampleFileSig :: string where
  "sampleFileSig = sampleSig (MsgText (buildFileMessage 1700000000000 sampleFileHash))"

definition samplePayload :: string where
  "samplePayload = payloadText 1700000000000 sampleFileHash sampleAddress sampleFileSig"

definition samplePayloadJson :: json where
  "samplePayloadJson =
     JObj [(''timestampMs'', JNum 1700000000000), (''fileHashSha256'', JStr sampleFileHash),
           (''signerAddress'', JStr sampleAddress), (''signature'', JStr sampleFileSig)]"

text \<open>
  A stand-in for the tool and for \<open>JSON.parse\<close>: the tool always succeeds and prints
  the tags in its text format, the bytes of a file are its comment tag and its streams,
  and the parser knows the four texts used below (the empty object, the sample payload,
  the bad payload and the payload with the equals sign) and rejects every other text.
\<close>

text \<open>A payload with a wrong digest and a signer address that is not an address.\<close>

definition badPayload :: string where
  "badPayload = payloadText 1700000000000 ''00'' ''not-an-address'' sampleFileSig"

definition badPayloadJson :: json where
  "badPayloadJson =
     JObj [(''timestampMs'', JNum 1700000000000), (''fileHashSha256'', JStr ''00''),
           (''signerAddress'', JStr ''not-an-address''), (''signature'', JStr sampleFileSig)]"

text \<open>The JSON text of an object with one key, whose value holds an equals sign.\<close>

definition equalsSignPayload :: string where
  "equalsSignPayload = ''{'' @ jsonQuote ''a'' @ '':'' @ jsonQuote ''b=c'' @ ''}''"

definition sampleParse :: "string \<Rightarrow> json option" where
  "sampleParse s =
     (if s = ''{}'' then Some (JObj [])
      else if s = samplePayload then Some samplePayloadJson
      else if s = badPayload then Some badPayloadJson
      else if s = equalsSignPayload then Some (JObj [(''a'', JStr ''b=c'')])
      else None)"

text \<open>A character the tool's text format prints as it is, and that ends no line.\<close>

definition plainChar :: "char \<Rightarrow> bool" where
  "plainChar c =
     (c \<noteq> CHR ''='' \<and> c \<noteq> CHR '';'' \<and> c \<noteq> CHR ''#'' \<and> c \<noteq> CHR 0x5C \<and>
      c \<noteq> CHR 0x0A \<and> c \<noteq> CHR 0x0D)"

definition tagValue :: "container \<Rightarrow> string \<Rightarrow> string" where
  "tagValue c k = (case tags c k of None \<Rightarrow> [] | Some v \<Rightarrow> v)"

text \<open>
  The text format the tool prints tags in: a header line, then one line \<open>key=value\<close>
  for each tag, with a backslash before each \<open>=\<close>, \<open>;\<close>, \<open>#\<close>, backslash and line feed
  of the value. The sample containers have no tags but \<open>artist\<close> and \<open>comment\<close>.
\<close>

definition ffmetadataEscape :: "string \<Rightarrow> string" where
  "ffmetadataEscape s =
     concat (map (\<lambda>c. if c = CHR ''='' \<or> c = CHR '';'' \<or> c = CHR ''#'' \<or> c = CHR 0x5C \<or>
                            c = CHR 0x0A
                         then [CHR 0x5C, c] else [c]) s)"

definition tagLine :: "container \<Rightarrow> string \<Rightarrow> string" where
  "tagLine c k =
     (case tags c k of
        None \<Rightarrow> []
      | Some v \<Rightarrow> k @ ''='' @ ffmetadataEscape v @ [CHR 0x0A])"

definition sampleFfmetadata :: "container \<Rightarrow> string" where
  "sampleFfmetadata c = '';FFMETADATA1'' @ [CHR 0x0A] @ tagLine c ''artist'' @ tagLine c ''comment''"

definition sampleMedia :: media where
  "sampleMedia =
     \<lparr>ffmpegExitsOk = (\<lambda>c. True),
      ffmetadataText = (\<lambda>c. Some (sampleFfmetadata c)),
      fileBytes = (\<lambda>c. tagValue c ''comment'' @ ''|'' @ streams c),
      jsonParse = sampleParse\<rparr>"

definition tagOf :: "container option \<Rightarrow> string \<Rightarrow> string option" where
  "tagOf f k = (case f of None \<Rightarrow> None | Some c \<Rightarrow> tags c k)"



definition badVideo :: container where
  "badVideo = \<lparr>tags = [''comment'' \<mapsto> badPayload], streams = ''jk''\<rparr>"

text \<open>The container the whole-file signer delivers for \<^const>\<open>sampleVideo\<close>.\<close>

definition sampleDelivered :: container where
  "sampleDelivered =
     \<lparr>tags = [''artist'' \<mapsto> ''Someone'', ''comment'' \<mapsto> samplePayload], streams = ''jk''\<rparr>"

text \<open>\<^const>\<open>sampleFileHash\<close> and \<^const>\<open>sampleAddress\<close> with other letter case.\<close>

definition upperFileHash :: string where
  "upperFileHash = ''313730303030303030303030307C6A6B''"

definition mixedAddress :: string where
  "mixedAddress = ''0xABABABABABababababababaBaBaBaBaBaBaBaBaB''"

section \<open>Notions used in the statements\<close>

text \<open>Signing never raises on a text message, and its signatures can be split.\<close>

definition libsSign :: "libs \<Rightarrow> bool" where
  "libsSign w =
     (\<forall>s. \<exists>sg. signMessage w (MsgText s) = Some sg \<and> splitSignature w sg \<noteq> None)"

text \<open>
  Recovery is correct: from a signature the wallet made of a message, the message
  recovers the wallet's address and public key.
\<close>

definition libsRecover :: "libs \<Rightarrow> bool" where
  "libsRecover w =
     (\<forall>m sg. signMessage w m = Some sg \<longrightarrow>
        verifyMessage w m sg = Some (walletAddress w) \<and>
        recoverPublicKey w (hashMessage w m) sg = Some (walletPublicKey w))"

text \<open>Every frame file of the directory can be read.\<close>

definition framesReadable :: "dirent list \<Rightarrow> bool" where
  "framesReadable dir = list_all (\<lambda>e. isPngFile e \<longrightarrow> entryContent e \<noteq> None) dir"

text \<open>
  A record is the signed record of the file \<open>fname\<close> at ordinal \<open>n\<close>: name, ordinal,
  digest of the file's bytes, message over them, and a signature of that message.
\<close>

definition signedRecord ::
  "libs \<Rightarrow> dirent list \<Rightarrow> int \<Rightarrow> nat \<Rightarrow> string \<Rightarrow> frameRecord \<Rightarrow> bool" where
  "signedRecord w dir ts n fname f =
     (filename f = fname \<and> frameNumber f = n \<and>
      (\<exists>buf. readFileBuffer dir fname = Inr buf \<and>
         frameHashSha256 f = sha256Hex w buf \<and>
         message f = buildMessageString ts n (sha256Hex w buf) \<and>
         signMessage w (MsgText (message f)) = Some (signature f)))"

fun signedFrom ::
  "libs \<Rightarrow> dirent list \<Rightarrow> int \<Rightarrow> nat \<Rightarrow> string list \<Rightarrow> frameRecord list \<Rightarrow> bool" where
  "signedFrom w dir ts i [] [] = True"
| "signedFrom w dir ts i (fname # names) (f # fs) =
     (signedRecord w dir ts (i + 1) fname f \<and> signedFrom w dir ts (i + 1) names fs)"
| "signedFrom w dir ts i names fs = False"

text \<open>The stored file names of the first two records exchanged, everything else kept.\<close>

fun swapFilenames :: "frameRecord list \<Rightarrow> frameRecord list" where
  "swapFilenames (f1 # f2 # fs) =
     f1\<lparr>filename := filename f2\<rparr> # f2\<lparr>filename := filename f1\<rparr> # fs"
| "swapFilenames fs = fs"

text \<open>The records the signing loop gives for \<^const>\<open>sampleDir\<close> at the timestamp 1000.\<close>

definition sampleFrames :: "libs \<Rightarrow> frameRecord list" where
  "sampleFrames w =
     (case signLoop w sampleDir 1000 0 (listPngFilesSorted sampleDir) [] of
        Inl e \<Rightarrow> []
      | Inr fs \<Rightarrow> fs)"

text \<open>The record \<^const>\<open>sampleLibs\<close> signs for a frame at the timestamp 1000.\<close>

definition sampleRecord :: "nat \<Rightarrow> string \<Rightarrow> buffer \<Rightarrow> frameRecord" where
  "sampleRecord n fname buf =
     \<lparr>frameNumber = n, filename = fname, frameHashSha256 = concat (map byteHex buf),
      message = buildMessageString 1000 n (concat (map byteHex buf)),
      messageKeccak256 = sampleSig (MsgText (buildMessageString 1000 n (concat (map byteHex buf)))),
      signature = sampleSig (MsgText (buildMessageString 1000 n (concat (map byteHex buf)))),
      sigR = ''r'', sigS = ''s'', sigV = 27\<rparr>"

text \<open>The second sample record carrying the signature of the first one.\<close>

definition forgedRecord :: frameRecord where
  "forgedRecord =
     (sampleRecord 2 ''frame_000002.png'' ''jk'')
       \<lparr>signature := signature (sampleRecord 1 ''frame_000001.PNG'' ''hi'')\<rparr>"

definition sampleVerdict :: verdict where
  "sampleVerdict =
     \<lparr>addrOk = True, pubOk = True, recoveredAddress = sampleAddress,
      recoveredPublicKey = ''0x04cD''\<rparr>"

definition sampleWorld :: "libs \<Rightarrow> world" where
  "sampleWorld w =
     emptyWorld\<lparr>inputFrames := sampleDir,
                manifestFile := Some (buildManifest w 1000 (sampleFrames w))\<rparr>"

text \<open>The digest of the manifest file of the sample run.\<close>

definition sampleManifestDigest :: string where
  "sampleManifestDigest =
     sha256Hex sampleLibs (manifestJson sampleLibs (buildManifest sampleLibs 1000 (sampleFrames sampleLibs)))"

section \<open>Facts about the frame pipeline\<close>

lemma find_by_name:
  "distinct (map entryName dir) \<Longrightarrow> e \<in> set dir \<Longrightarrow>
     find (\<lambda>x. entryName x = entryName e) dir = Some e"
  by (induction dir) (auto simp: rev_image_eqI)

lemma listed_is_png:
  "fname \<in> set (listPngFilesSorted dir) \<Longrightarrow> \<exists>e \<in> set dir. isPngFile e \<and> entryName e = fname"
  by (auto simp: listPngFilesSorted_def)

lemma listed_readable:
  assumes "distinct (map entryName dir)" and "framesReadable dir"
    and "fname \<in> set (listPngFilesSorted dir)"
  shows "\<exists>buf. readFileBuffer dir fname = Inr buf"
proof -
  from listed_is_png[OF assms(3)] obtain e where
    e: "e \<in> set dir" "isPngFile e" "entryName e = fname" by blast
  from assms(2) e have "entryContent e \<noteq> None"
    by (auto simp: framesReadable_def list_all_iff)
  moreover have "find (\<lambda>x. entryName x = fname) dir = Some e"
    using find_by_name[OF assms(1) e(1)] e(3) by simp
  ultimately show ?thesis by (auto simp: readFileBuffer_def)
qed

lemma signEip191_success:
  "libsSign w \<Longrightarrow> \<exists>sg. signEip191 w s = Inr sg"
  unfolding libsSign_def signEip191_def
  by (metis (mono_tags, lifting) option.simps(5) not_None_eq old.prod.case prod_cases3)

lemma signEip191_Inr:
  "signEip191 w s = Inr sg \<Longrightarrow> signMessage w (MsgText s) = Some (signedSignature sg)"
  by (auto simp: signEip191_def split: option.splits)

lemma signLoop_success:
  "libsSign w \<Longrightarrow> \<forall>f \<in> set files. \<exists>buf. readFileBuffer dir f = Inr buf \<Longrightarrow>
     \<exists>res. signLoop w dir ts i files acc = Inr res"
proof (induction files arbitrary: i acc)
  case Nil
  then show ?case by simp
next
  case (Cons fname rest)
  from Cons.prems(2) obtain buf where buf: "readFileBuffer dir fname = Inr buf" by auto
  from signEip191_success[OF Cons.prems(1)] obtain sg where
    sg: "signEip191 w (buildMessageString ts (i + 1) (sha256Hex w buf)) = Inr sg" by blast
  show ?case using Cons.IH[OF Cons.prems(1)] Cons.prems(2) buf sg by (simp add: Let_def)
qed

lemma signedFrom_append_length:
  "signedFrom w dir ts i names fs \<Longrightarrow> length fs = length names"
  by (induction w dir ts i names fs rule: signedFrom.induct) auto

lemma signLoop_signed:
  "signLoop w dir ts i files acc = Inr res \<Longrightarrow>
     \<exists>fs. res = acc @ fs \<and> signedFrom w dir ts i files fs"
proof (induction files arbitrary: i acc)
  case Nil
  then show ?case by simp
next
  case (Cons fname rest)
  from Cons.prems obtain buf sg where
    buf: "readFileBuffer dir fname = Inr buf" and
    sg: "signEip191 w (buildMessageString ts (i + 1) (sha256Hex w buf)) = Inr sg" and
    rest: "signLoop w dir ts (i + 1) rest
             (acc @ [\<lparr>frameNumber = i + 1, filename = fname, frameHashSha256 = sha256Hex w buf,
                      message = buildMessageString ts (i + 1) (sha256Hex w buf),
                      messageKeccak256 = signedKeccak sg, signature = signedSignature sg,
                      sigR = signedR sg, sigS = signedS sg, sigV = signedV sg\<rparr>]) = Inr res"
    by (auto simp: Let_def split: sum.splits)
  from Cons.IH[OF rest] obtain fs where
    fs: "res = (acc @ [\<lparr>frameNumber = i + 1, filename = fname, frameHashSha256 = sha256Hex w buf,
                      message = buildMessageString ts (i + 1) (sha256Hex w buf),
                      messageKeccak256 = signedKeccak sg, signature = signedSignature sg,
                      sigR = signedR sg, sigS = signedS sg, sigV = signedV sg\<rparr>]) @ fs"
        "signedFrom w dir ts (i + 1) rest fs" by blast
  show ?case
    using fs buf signEip191_Inr[OF sg]
    by (intro exI[of _ "\<lparr>frameNumber = i + 1, filename = fname, frameHashSha256 = sha256Hex w buf,
                      message = buildMessageString ts (i + 1) (sha256Hex w buf),
                      messageKeccak256 = signedKeccak sg, signature = signedSignature sg,
                      sigR = signedR sg, sigS = signedS sg, sigV = signedV sg\<rparr> # fs"])
       (simp add: signedRecord_def)
qed

lemma signedFrom_check:
  "signedFrom w dir ts i names fs \<Longrightarrow> checkFrameSet i names fs = Inr ()"
  by (induction w dir ts i names fs rule: signedFrom.induct) (auto simp: signedRecord_def)

lemma verifyEip191_recovered:
  assumes "libsRecover w" and "signMessage w (MsgText s) = Some sg"
  shows "\<exists>vd. verifyEip191 w (walletAddress w) s sg (Some (walletPublicKey w)) = Inr vd \<and>
           addrOk vd \<and> pubOk vd"
  using assms by (auto simp: libsRecover_def verifyEip191_def)

lemma signedFrom_verify:
  "libsRecover w \<Longrightarrow> signedFrom w dir ts i names fs \<Longrightarrow>
     verifyLoop w dir ts (walletAddress w) (Some (walletPublicKey w)) fs = Inr ()"
proof (induction w dir ts i names fs rule: signedFrom.induct)
  case (2 w dir ts i fname names f fs)
  from "2.prems"(2) obtain buf where
    r: "filename f = fname" "frameNumber f = i + 1" "readFileBuffer dir fname = Inr buf"
       "frameHashSha256 f = sha256Hex w buf"
       "message f = buildMessageString ts (i + 1) (sha256Hex w buf)"
       "signMessage w (MsgText (message f)) = Some (signature f)"
    and rest: "signedFrom w dir ts (i + 1) names fs"
    by (auto simp: signedRecord_def)
  from verifyEip191_recovered[OF "2.prems"(1) r(6)] obtain vd where
    vd: "verifyEip191 w (walletAddress w) (message f) (signature f) (Some (walletPublicKey w)) = Inr vd"
        "addrOk vd" "pubOk vd" by blast
  show ?case using r vd "2.IH"[OF "2.prems"(1) rest] by (simp add: Let_def)
qed auto


lemma listing_signLoop_success:
  assumes "distinct (map entryName dir)" and "framesReadable dir" and "libsSign w"
  shows "\<exists>fs. signLoop w dir ts 0 (listPngFilesSorted dir) [] = Inr fs"
proof -
  have "\<forall>f \<in> set (listPngFilesSorted dir). \<exists>buf. readFileBuffer dir f = Inr buf"
    using listed_readable[OF assms(1,2)] by blast
  from signLoop_success[OF assms(3) this] show ?thesis .
qed

lemma signed_manifest_accepted:
  assumes "libsRecover w" and "signedFrom w dir ts 0 (listPngFilesSorted dir) fs"
  shows "verifyStep w (st\<lparr>inputFrames := dir, manifestFile := Some (buildManifest w ts fs)\<rparr>)
           = Inr (buildManifest w ts fs)"
  using signedFrom_check[OF assms(2)] signedFrom_verify[OF assms] signedFrom_append_length[OF assms(2)]
  by (simp add: verifyStep_def frameSetCheck_def buildManifest_def Let_def)

lemma checkFrameSet_names:
  "checkFrameSet i names fs = Inr () \<Longrightarrow> length names = length fs \<Longrightarrow>
     map filename fs = names"
  by (induction i names fs rule: checkFrameSet.induct) (auto split: if_splits)

lemma listing_distinct:
  "distinct (map entryName dir) \<Longrightarrow> distinct (listPngFilesSorted dir)"
  by (simp add: listPngFilesSorted_def distinct_map_filter)

lemma verifyStep_Inr:
  "verifyStep w st = Inr m \<Longrightarrow>
     manifestFile st = Some m \<and> frameSetCheck (inputFrames st) m = Inr ()"
  by (auto simp: verifyStep_def split: option.splits sum.splits)

lemma frameSetCheck_Inr:
  "frameSetCheck dir m = Inr () \<Longrightarrow> map filename (frames m) = listPngFilesSorted dir"
  by (auto simp: frameSetCheck_def Let_def checkFrameSet_names split: if_splits)


section \<open>Facts about the sample inputs\<close>

lemma sample_listing: "listPngFilesSorted sampleDir = [''frame_000001.PNG'', ''frame_000002.png'']"
  by (simp add: listPngFilesSorted_def sampleDir_def isPngFile_def endsWith_def toLowerCase_def
        lowerChar_def char_of_eq_iff)

lemma broken_listing: "listPngFilesSorted brokenDir = [''frame_000001.PNG'', ''frame_000002.png'']"
  by code_simp

lemma sample_distinct: "distinct (map entryName sampleDir)"
  by (simp add: sampleDir_def)

lemma sample_readable: "framesReadable sampleDir"
  by (simp add: framesReadable_def sampleDir_def)

lemma sample_libsSign: "libsSign sampleLibs"
  by (simp add: libsSign_def sampleLibs_def)

lemma sample_libsRecover: "libsRecover sampleLibs"
  by (simp add: libsRecover_def sampleLibs_def)



lemma broken_signLoop:
  "signLoop sampleLibs brokenDir 1000 0 (listPngFilesSorted brokenDir) []
     = Inl (ReadFailed ''frame_000002.png'')"
  unfolding broken_listing
  by (simp add: readFileBuffer_def brokenDir_def signEip191_def sampleLibs_def Let_def)


section \<open>Round trip of the frame pipeline\<close>

text \<open>
  C1. Round-trip acceptance. Take any frame directory whose entries have distinct names
  and whose frame files can be read, any run-start timestamp, and libraries that sign
  every message and recover the wallet from what the wallet signed. Then the signing
  loop over the sorted listing succeeds with one record for each frame, and the verify
  step over the manifest built from these records and the same directory returns the
  manifest: no check rejects.
\<close>

theorem round_trip_accepted:
  assumes "distinct (map entryName dir)" and "framesReadable dir"
    and "libsSign w" and "libsRecover w"
  shows "\<exists>fs. signLoop w dir ts 0 (listPngFilesSorted dir) [] = Inr fs \<and>
           length fs = length (listPngFilesSorted dir) \<and>
           verifyStep w (st\<lparr>inputFrames := dir, manifestFile := Some (buildManifest w ts fs)\<rparr>)
             = Inr (buildManifest w ts fs)"
proof -
  from listing_signLoop_success[OF assms(1,2,3)] obtain fs where
    fs: "signLoop w dir ts 0 (listPngFilesSorted dir) [] = Inr fs" by blast
  from signLoop_signed[OF fs] have sf: "signedFrom w dir ts 0 (listPngFilesSorted dir) fs"
    by simp
  have "length fs = length (listPngFilesSorted dir)"
    by (rule signedFrom_append_length[OF sf])
  moreover have "verifyStep w
         (st\<lparr>inputFrames := dir, manifestFile := Some (buildManifest w ts fs)\<rparr>)
       = Inr (buildManifest w ts fs)"
    by (rule signed_manifest_accepted[OF assms(4) sf])
  ultimately show ?thesis using fs by blast
qed

theorem round_trip_accepted_witness:
  "distinct (map entryName sampleDir) \<and> framesReadable sampleDir \<and>
   libsSign sampleLibs \<and> libsRecover sampleLibs \<and>
   length (listPngFilesSorted sampleDir) = 2 \<and>
   (\<exists>fs. signLoop sampleLibs sampleDir 1000 0 (listPngFilesSorted sampleDir) [] = Inr fs \<and>
      length fs = length (listPngFilesSorted sampleDir) \<and>
      verifyStep sampleLibs
        (emptyWorld\<lparr>inputFrames := sampleDir,
                    manifestFile := Some (buildManifest sampleLibs 1000 fs)\<rparr>)
        = Inr (buildManifest sampleLibs 1000 fs))"
  using round_trip_accepted[OF sample_distinct sample_readable sample_libsSign sample_libsRecover,
          of 1000 emptyWorld]
        sample_distinct sample_readable sample_libsSign sample_libsRecover
  by (simp add: sample_listing)

section \<open>Further facts about the frame pipeline\<close>

lemma negativeStep_passes: "negativeStep w st loaded = Inr ()"
  by (simp add: negativeStep_def Let_def split: sum.split)

lemma main_manifest_changed:
  assumes "manifestFile (fst (main w rn st0)) \<noteq> manifestFile st0"
  shows "\<exists>dir fs. extractedFrames rn = Some dir \<and>
           signLoop w dir (clockMs rn) 0 (listPngFilesSorted dir) [] = Inr fs \<and>
           length fs = length (listPngFilesSorted dir) \<and>
           manifestFile (fst (main w rn st0)) = Some (buildManifest w (clockMs rn) fs)"
proof -
  from assms obtain dir where dir: "extractedFrames rn = Some dir" and vp: "videoPresent st0"
    by (cases "extractedFrames rn") (auto simp: main_def Let_def split: if_splits)
  from assms dir vp obtain fs where
    fs: "signLoop w dir (clockMs rn) 0 (listPngFilesSorted dir) [] = Inr fs"
    by (cases "signLoop w dir (clockMs rn) 0 (listPngFilesSorted dir) []")
       (auto simp: main_def Let_def split: if_splits)
  from signLoop_signed[OF fs] have len: "length fs = length (listPngFilesSorted dir)"
    by (auto dest: signedFrom_append_length)
  have "manifestFile (fst (main w rn st0)) = Some (buildManifest w (clockMs rn) fs)"
    using assms dir vp fs
    by (auto simp: main_def Let_def signManifestHashStep_def
             split: if_splits sum.splits option.splits)
  with dir fs len show ?thesis by blast
qed

lemma verifyStep_Inr_loop:
  "verifyStep w st = Inr m \<Longrightarrow>
     verifyLoop w (inputFrames st) (startTimestampMs m) (address (signer m))
       (publicKey (signer m)) (frames m) = Inr ()"
  by (auto simp: verifyStep_def split: option.splits sum.splits)

lemma verifyLoop_accepts_all:
  "verifyLoop w dir ts a pk fs = Inr () \<Longrightarrow> f \<in> set fs \<Longrightarrow>
     \<exists>v. verifyEip191 w a (message f) (signature f) pk = Inr v \<and> addrOk v \<and> pubOk v"
proof (induction fs)
  case Nil
  then show ?case by simp
next
  case (Cons g gs)
  from Cons.prems(1) have
    hd: "\<exists>v. verifyEip191 w a (message g) (signature g) pk = Inr v \<and> addrOk v \<and> pubOk v"
    and tl: "verifyLoop w dir ts a pk gs = Inr ()"
    by (auto simp: Let_def split: sum.splits if_splits)
  show ?case
  proof (cases "f = g")
    case True
    with hd show ?thesis by simp
  next
    case False
    with Cons.prems(2) have "f \<in> set gs" by simp
    from Cons.IH[OF tl this] show ?thesis .
  qed
qed

lemma verifyLoop_append:
  "verifyLoop w dir ts a pk (pre @ post) =
     (case verifyLoop w dir ts a pk pre of Inl e \<Rightarrow> Inl e | Inr u \<Rightarrow> verifyLoop w dir ts a pk post)"
  by (induction pre) (auto simp: Let_def split: sum.splits)

section \<open>Further facts about the sample inputs\<close>

lemma showInt_sample: "showInt 1700000000000 = ''1700000000000''"
  by (simp add: showInt_def showNat.simps digitChar_def char_of_eq_iff)

lemma showInt_1000: "showInt 1000 = ''1000''" and showInt_1001: "showInt 1001 = ''1001''"
  by (simp_all add: showInt_def showNat.simps digitChar_def char_of_eq_iff)

lemma numberOfDigits_sample: "numberOfDigits ''1700000000000'' = 1700000000000"
  by (simp add: numberOfDigits_def)

lemma hexdump_sample: "concat (map byteHex ''1700000000000|jk'') = sampleFileHash"
  by code_simp

lemma canonical_hash:
  assumes "streams c = ''jk''"
  shows "sha256Hex sampleLibs
           (fileBytes sampleMedia (rewriteTags True [(''comment'', ''1700000000000'')] c))
         = sampleFileHash"
proof -
  have "fileBytes sampleMedia (rewriteTags True [(''comment'', ''1700000000000'')] c)
          = ''1700000000000|jk''"
    using assms by (simp add: sampleMedia_def rewriteTags_def tagValue_def)
  then show ?thesis
    using hexdump_sample by (simp add: sampleLibs_def)
qed

lemma lower_hash: "toLowerCase upperFileHash = toLowerCase sampleFileHash"
  by code_simp

lemma lower_address: "toLowerCase mixedAddress = toLowerCase sampleAddress"
  by code_simp

lemma lower_other: "toLowerCase otherAddress \<noteq> toLowerCase sampleAddress"
  by code_simp

lemma shape_sample: "addressShape sampleAddress" "addressShape mixedAddress"
  "\<not> addressShape ''not-an-address''" "timestampShape ''1700000000000''" "\<not> timestampShape ''17''"
  by (simp_all add: addressShape_def timestampShape_def sampleAddress_def mixedAddress_def
        isHexDigit_def isDigit_def)

lemma quote_differs: "jsonQuote upperFileHash \<noteq> jsonQuote sampleFileHash"
  by (simp add: jsonQuote_def escapeChar_def upperFileHash_def sampleFileHash_def)

lemma hexDigitChar_simps:
  "hexDigitChar 0 = CHR ''0''" "hexDigitChar 1 = CHR ''1''" "hexDigitChar 2 = CHR ''2''"
  "hexDigitChar 3 = CHR ''3''" "hexDigitChar 4 = CHR ''4''" "hexDigitChar 5 = CHR ''5''"
  "hexDigitChar 6 = CHR ''6''" "hexDigitChar 7 = CHR ''7''" "hexDigitChar 8 = CHR ''8''"
  "hexDigitChar 9 = CHR ''9''" "hexDigitChar 10 = CHR ''a''" "hexDigitChar 11 = CHR ''b''"
  "hexDigitChar 12 = CHR ''c''" "hexDigitChar 13 = CHR ''d''" "hexDigitChar 14 = CHR ''e''"
  "hexDigitChar 15 = CHR ''f''" "hexDigitChar (Suc 0) = CHR ''1''"
  by (simp_all add: hexDigitChar_def char_of_eq_iff)

lemma sample_frames:
  "sampleFrames sampleLibs =
     [sampleRecord 1 ''frame_000001.PNG'' ''hi'', sampleRecord 2 ''frame_000002.png'' ''jk'']"
  unfolding sampleFrames_def sample_listing
  by (simp add: readFileBuffer_def sampleDir_def signEip191_def sampleLibs_def sampleRecord_def
        Let_def numeral_2_eq_2)


lemma sample_signLoop:
  assumes "libsSign w" and "libsRecover w"
  shows "signLoop w sampleDir 1000 0 (listPngFilesSorted sampleDir) [] = Inr (sampleFrames w)"
    and "length (sampleFrames w) = 2"
    and "verifyStep w (sampleWorld w) = Inr (buildManifest w 1000 (sampleFrames w))"
proof -
  from listing_signLoop_success[OF sample_distinct sample_readable assms(1), of 1000]
  obtain fs where fs1: "signLoop w sampleDir 1000 0 (listPngFilesSorted sampleDir) [] = Inr fs"
    by blast
  from signLoop_signed[OF fs1] have sf: "signedFrom w sampleDir 1000 0 (listPngFilesSorted sampleDir) fs"
    by simp
  note fs = fs1 signedFrom_append_length[OF sf]
    signed_manifest_accepted[OF assms(2) sf, of emptyWorld]
  have eq: "sampleFrames w = fs" using fs(1) by (simp add: sampleFrames_def)
  show "signLoop w sampleDir 1000 0 (listPngFilesSorted sampleDir) [] = Inr (sampleFrames w)"
    using fs(1) eq by simp
  show "length (sampleFrames w) = 2" using fs(2) eq by (simp add: sample_listing)
  show "verifyStep w (sampleWorld w) = Inr (buildManifest w 1000 (sampleFrames w))"
    using fs(3) eq by (simp add: sampleWorld_def)
qed

lemma sample_main:
  assumes "libsSign w" and "libsRecover w"
    and "signMessage w (MsgBytes (bufferFromHex
           (sha256Hex w (manifestJson w (buildManifest w 1000 (sampleFrames w)))))) = Some sg"
    and "splitSignature w sg = Some rsv"
  shows "main w sampleRun emptyWorld =
          ((sampleWorld w)\<lparr>certificateSignature := Some sg,
              manifestHashTxt := Some (joinLines [''test.mp4'', showInt 1000,
                 sha256Hex w (manifestJson w (buildManifest w 1000 (sampleFrames w)))]),
              verifiableCopyWritten := True\<rparr>, None)"
proof -
  have ne: "listPngFilesSorted sampleDir \<noteq> []" by (simp add: sample_listing)
  have vp: "videoPresent emptyWorld" by (simp add: emptyWorld_def)
  have st3: "emptyWorld\<lparr>inputFrames := sampleDir,
               manifestFile := Some (buildManifest w 1000 (sampleFrames w))\<rparr> = sampleWorld w"
    by (simp add: sampleWorld_def)
  have mf: "manifestFile (sampleWorld w) = Some (buildManifest w 1000 (sampleFrames w))"
    by (simp add: sampleWorld_def)
  show ?thesis
    using ne sample_signLoop(1,3)[OF assms(1,2)] assms(3,4)
    by (simp add: main_def sampleRun_def vp Let_def st3 negativeStep_passes
          signManifestHashStep_def mf)
qed

lemma sample_main_sampleLibs:
  "main sampleLibs sampleRun emptyWorld =
     ((sampleWorld sampleLibs)\<lparr>
         certificateSignature := Some (sampleSig (MsgBytes (bufferFromHex sampleManifestDigest))),
         manifestHashTxt := Some (joinLines [''test.mp4'', showInt 1000, sampleManifestDigest]),
         verifiableCopyWritten := True\<rparr>, None)"
  unfolding sampleManifestDigest_def
  by (rule sample_main[OF sample_libsSign sample_libsRecover]) (simp_all add: sampleLibs_def)



lemma sample_read:
  "readFileBuffer sampleDir ''frame_000001.PNG'' = Inr ''hi''"
  "readFileBuffer sampleDir ''frame_000002.png'' = Inr ''jk''"
  by (simp_all add: readFileBuffer_def sampleDir_def)

lemma sample_verifyLoop:
  "verifyLoop sampleLibs sampleDir 1000 sampleAddress (Some ''0x04cD'')
     [sampleRecord 1 ''frame_000001.PNG'' ''hi'', sampleRecord 2 ''frame_000002.png'' ''jk'']
   = Inr ()"
proof -
  have wa: "walletAddress sampleLibs = sampleAddress" "walletPublicKey sampleLibs = ''0x04cD''"
    by (simp_all add: sampleLibs_def)
  show ?thesis
    using verifyStep_Inr_loop[OF sample_signLoop(3)[OF sample_libsSign sample_libsRecover]]
    by (simp add: sampleWorld_def buildManifest_def sample_frames wa del: verifyLoop.simps)
qed

lemma sample_verdict:
  "verifyEip191 sampleLibs mixedAddress ''m'' (sampleSig (MsgText ''m'')) None = Inr sampleVerdict"
  "verifyEip191 sampleLibs mixedAddress ''m'' (sampleSig (MsgText ''m'')) (Some ''0x04CD'')
     = Inr sampleVerdict"
  "verifyEip191 sampleLibs mixedAddress ''m'' (sampleSig (MsgText ''m'')) (Some ''0x05'')
     = Inr (sampleVerdict\<lparr>pubOk := False\<rparr>)"
proof -
  have k: "toLowerCase ''0x04cD'' = toLowerCase ''0x04CD''"
    "toLowerCase ''0x04cD'' \<noteq> toLowerCase ''0x05''" by code_simp+
  show "verifyEip191 sampleLibs mixedAddress ''m'' (sampleSig (MsgText ''m'')) None = Inr sampleVerdict"
    by (simp add: verifyEip191_def sampleLibs_def sampleVerdict_def lower_address)
  show "verifyEip191 sampleLibs mixedAddress ''m'' (sampleSig (MsgText ''m'')) (Some ''0x04CD'')
     = Inr sampleVerdict"
    using k by (simp add: verifyEip191_def sampleLibs_def sampleVerdict_def lower_address)
  show "verifyEip191 sampleLibs mixedAddress ''m'' (sampleSig (MsgText ''m'')) (Some ''0x05'')
     = Inr (sampleVerdict\<lparr>pubOk := False\<rparr>)"
    using k by (simp add: verifyEip191_def sampleLibs_def sampleVerdict_def lower_address)
qed

lemma failing_signLoop:
  "signLoop failingLibs sampleDir 1000 0 (listPngFilesSorted sampleDir) [] = Inl LibraryError"
  unfolding sample_listing
  by (simp add: sample_read signEip191_def failingLibs_def Let_def)

lemma forged_verdict:
  "verifyEip191 sampleLibs sampleAddress (message forgedRecord) (signature forgedRecord)
     (Some ''0x04cD'')
   = Inr \<lparr>addrOk = False, pubOk = False, recoveredAddress = otherAddress,
          recoveredPublicKey = ''0x04''\<rparr>"
proof -
  have k: "toLowerCase ''0x04'' \<noteq> toLowerCase ''0x04cD''" by code_simp
  have one: "showNat (Suc 0) = ''1''" and two: "showNat 2 = ''2''"
    by (simp_all add: showNat.simps digitChar_def char_of_eq_iff)
  have s: "signature forgedRecord \<noteq> sampleSig (MsgText (message forgedRecord))"
    by (simp add: forgedRecord_def sampleRecord_def sampleSig_def buildMessageString_def
          jsonQuote_def escapeChar_def showInt_1000 one two byteHex_def hexDigitChar_simps)
  have v: "verifyMessage sampleLibs m sg
             = Some (if sg = sampleSig m then sampleAddress else otherAddress)"
    "recoverPublicKey sampleLibs h sg = Some (if sg = h then ''0x04cD'' else ''0x04'')"
    "hashMessage sampleLibs m = sampleSig m" for m sg h
    by (simp_all add: sampleLibs_def)
  show ?thesis
    using k s lower_other by (simp add: verifyEip191_def v)
qed

lemma forged_checks:
  "readFileBuffer sampleDir (filename forgedRecord) = Inr ''jk''"
  "sha256Hex sampleLibs ''jk'' = frameHashSha256 forgedRecord"
  "buildMessageString 1000 (frameNumber forgedRecord) (sha256Hex sampleLibs ''jk'')
     = message forgedRecord"
  by (simp_all add: forgedRecord_def sampleRecord_def sample_read sampleLibs_def)

lemma sample_verifyLoop_first:
  "verifyLoop sampleLibs sampleDir 1000 sampleAddress (Some ''0x04cD'')
     [sampleRecord 1 ''frame_000001.PNG'' ''hi''] = Inr ()"
  using sample_verifyLoop verifyLoop_append[of sampleLibs sampleDir 1000 sampleAddress
      "Some ''0x04cD''" "[sampleRecord 1 ''frame_000001.PNG'' ''hi'']"
      "[sampleRecord 2 ''frame_000002.png'' ''jk'']"]
  by (simp del: verifyLoop.simps split: sum.splits)

section \<open>Facts about the whole-file pipeline\<close>

lemma readComment_cases:
  "readCommentStep t c =
     (case readMetadataTags t c of
        Inl e \<Rightarrow> Inl e
      | Inr tg \<Rightarrow>
          if trim (comment tg) = [] then Inl MissingCommentPayload
          else case jsonParse t (trim (comment tg)) of
                 None \<Rightarrow> Inl InvalidCommentPayload
               | Some v \<Rightarrow> if isObjectValue v then Inr v else Inl InvalidCommentPayload)"
  by (simp add: readCommentStep_def Let_def split: sum.splits)

lemma hashCompare_cases:
  "hashCompareStep w t c ts h =
     (if \<not> ffmpegExitsOk t c then Inl FfmpegFailed
      else if toLowerCase (sha256Hex w (fileBytes t (rewriteTags True [(''comment'', ts)] c)))
                \<noteq> toLowerCase h
           then Inl FileHashMismatch else Inr ())"
  by (simp add: hashCompareStep_def writeCanonicalMetadata_def runFfmpeg_def metadataArgs_def
        onlyComment_def Let_def)



lemma splitLines_line:
  "list_all (\<lambda>d. d \<noteq> CHR 0x0A \<and> d \<noteq> CHR 0x0D) s \<Longrightarrow>
     splitLines cur (s @ CHR 0x0A # rest) = (rev cur @ s) # splitLines [] rest"
  by (induction s arbitrary: cur) auto

lemma escape_plain: "list_all plainChar s \<Longrightarrow> ffmetadataEscape s = s"
  by (induction s) (auto simp: ffmetadataEscape_def plainChar_def)

lemma plain_no_break:
  "list_all plainChar s \<Longrightarrow> list_all (\<lambda>d. d \<noteq> CHR 0x0A \<and> d \<noteq> CHR 0x0D) s"
  by (induction s) (auto simp: plainChar_def)

lemma match_header: "matchTagLine '';FFMETADATA1'' = None" "matchTagLine [] = None"
  by (simp_all add: matchTagLine_def isKeyChar_def)

lemma match_comment:
  "list_all (\<lambda>d. d \<noteq> CHR 0x0A \<and> d \<noteq> CHR 0x0D) v \<Longrightarrow>
     matchTagLine (''comment'' @ ''='' @ v) = Some (''comment'', v)"
  by (simp add: matchTagLine_def isKeyChar_def)

lemma match_artist: "matchTagLine ''artist=Someone'' = Some (''artist'', ''Someone'')"
  by (simp add: matchTagLine_def isKeyChar_def)

lemma lower_keys: "toLowerCase ''comment'' = ''comment''" "toLowerCase ''artist'' = ''artist''"
  by (simp_all add: toLowerCase_def lowerChar_def)

lemma sample_readMetadataTags:
  assumes "tags c ''comment'' = Some v"
    and "list_all (\<lambda>d. d \<noteq> CHR 0x0A \<and> d \<noteq> CHR 0x0D) (ffmetadataEscape v)"
    and "tags c ''artist'' = None \<or> tags c ''artist'' = Some ''Someone''"
  shows "\<exists>a. readMetadataTags sampleMedia c
           = Inr \<lparr>artist = a, album = [], comment = ffmetadataEscape v\<rparr>"
proof -
  have hd: "list_all (\<lambda>d. d \<noteq> CHR 0x0A \<and> d \<noteq> CHR 0x0D) '';FFMETADATA1''" by simp
  have cl: "list_all (\<lambda>d. d \<noteq> CHR 0x0A \<and> d \<noteq> CHR 0x0D) (''comment'' @ ''='' @ ffmetadataEscape v)"
    using assms(2) by simp
  from assms(3) show ?thesis
  proof
    assume a: "tags c ''artist'' = None"
    have "sampleFfmetadata c = '';FFMETADATA1'' @ CHR 0x0A #
            ((''comment'' @ ''='' @ ffmetadataEscape v) @ CHR 0x0A # [])"
      using a assms(1) by (simp add: sampleFfmetadata_def tagLine_def)
    then have "splitLines [] (sampleFfmetadata c)
                 = ['';FFMETADATA1'', ''comment'' @ ''='' @ ffmetadataEscape v, []]"
      using splitLines_line[OF hd, of "[]"] splitLines_line[OF cl, of "[]" "[]"] by simp
    then show ?thesis
      using match_header match_comment[OF assms(2)]
      by (simp add: readMetadataTags_def sampleMedia_def lower_keys del: append.simps)
  next
    assume a: "tags c ''artist'' = Some ''Someone''"
    have e: "ffmetadataEscape ''Someone'' = ''Someone''"
      by (simp add: ffmetadataEscape_def)
    have al: "list_all (\<lambda>d. d \<noteq> CHR 0x0A \<and> d \<noteq> CHR 0x0D) ''artist=Someone''" by simp
    have "sampleFfmetadata c = '';FFMETADATA1'' @ CHR 0x0A # (''artist=Someone'' @ CHR 0x0A #
            ((''comment'' @ ''='' @ ffmetadataEscape v) @ CHR 0x0A # []))"
      using a assms(1) by (simp add: sampleFfmetadata_def tagLine_def e)
    then have "splitLines [] (sampleFfmetadata c)
                 = ['';FFMETADATA1'', ''artist=Someone'', ''comment'' @ ''='' @ ffmetadataEscape v, []]"
      using splitLines_line[OF hd, of "[]"] splitLines_line[OF al, of "[]"]
            splitLines_line[OF cl, of "[]" "[]"] by simp
    then show ?thesis
      using match_header match_comment[OF assms(2)] match_artist
      by (simp add: readMetadataTags_def sampleMedia_def lower_keys del: append.simps)
  qed
qed


lemma sample_ffmpeg: "ffmpegExitsOk sampleMedia c"
  by (simp add: sampleMedia_def)

lemma sample_hashCompare:
  "streams c = ''jk'' \<Longrightarrow>
     hashCompareStep sampleLibs sampleMedia c ''1700000000000'' h
       = (if toLowerCase sampleFileHash \<noteq> toLowerCase h then Inl FileHashMismatch else Inr ())"
  by (simp add: hashCompare_cases sample_ffmpeg canonical_hash)

lemma other_hashes:
  "toLowerCase sampleFileHash \<noteq> toLowerCase ''00''"
  "toLowerCase (concat (map byteHex ''undefined|jk'')) \<noteq> toLowerCase ''undefined''"
  "toLowerCase (concat (map byteHex ''17|jk'')) = toLowerCase ''31377c6a6b''"
  by code_simp+








lemma payloads_plain: "list_all plainChar samplePayload" "list_all plainChar badPayload"
  by (simp_all add: samplePayload_def badPayload_def payloadText_def jsonQuote_def escapeChar_def
        showInt_sample sampleFileHash_def sampleAddress_def sampleFileSig_def sampleSig_def
        buildFileMessage_def byteHex_def hexDigitChar_simps plainChar_def)

lemma bad_payload_read: "readCommentStep sampleMedia badVideo = Inr badPayloadJson"
proof -
  have ne: "badPayload \<noteq> ''{}''" "badPayload \<noteq> samplePayload" "badPayload \<noteq> []"
    by (simp_all add: badPayload_def samplePayload_def payloadText_def jsonQuote_def escapeChar_def
          sampleFileHash_def)
  have tr: "trim badPayload = badPayload"
    by (simp add: trim_def isSpace_def badPayload_def payloadText_def jsonQuote_def)
  have e: "ffmetadataEscape badPayload = badPayload"
    by (rule escape_plain[OF payloads_plain(2)])
  from sample_readMetadataTags[of badVideo badPayload] plain_no_break[OF payloads_plain(2)]
  obtain a where r: "readMetadataTags sampleMedia badVideo
           = Inr \<lparr>artist = a, album = [], comment = badPayload\<rparr>"
    by (auto simp: badVideo_def e)
  show ?thesis
    using ne r tr by (simp add: readComment_cases)
       (simp add: sampleMedia_def sampleParse_def badPayloadJson_def)
qed

lemma sample_verifyFields:
  "verifyFields sampleLibs sampleMedia sampleDelivered ''1700000000000'' sampleFileHash
     sampleAddress sampleFileSig = Inr ()"
  by (simp add: verifyFields_def sample_hashCompare sampleDelivered_def shape_sample
        signatureStep_def numberOfDigits_sample sampleFileSig_def Let_def)
     (simp add: sampleLibs_def)

lemma upper_signatureStep:
  "signatureStep sampleLibs ''1700000000000'' upperFileHash sampleAddress sampleFileSig
     = Inl SignatureDoesNotMatch"
proof -
  have d: "sampleFileSig \<noteq> sampleSig (MsgText (buildFileMessage 1700000000000 upperFileHash))"
    by (simp add: sampleFileSig_def sampleSig_def buildFileMessage_def jsonQuote_def
          escapeChar_def showInt_sample sampleFileHash_def upperFileHash_def byteHex_def
          hexDigitChar_simps)
  have v: "verifyMessage sampleLibs m sg
             = Some (if sg = sampleSig m then sampleAddress else otherAddress)" for m sg
    by (simp add: sampleLibs_def)
  show ?thesis
    using d lower_other by (simp add: signatureStep_def numberOfDigits_sample v Let_def)
qed

lemma sample_signVideo:
  "signVideoMain sampleLibs sampleMedia 1700000000000 sampleVideoWorld =
     (sampleVideoWorld\<lparr>tempPath1 := None, tempPath2 := None,
        finalPath := Some sampleDelivered,
        videoHashTxt := Some (joinLines [''test.mp4'', ''1700000000000'', sampleFileHash])\<rparr>, None)"
proof -
  have s: "streams sampleVideo = ''jk''" by (simp add: sampleVideo_def)
  have sg: "signMessage sampleLibs (MsgText (buildFileMessage 1700000000000 sampleFileHash))
              = Some sampleFileSig"
    "splitSignature sampleLibs sampleFileSig = Some (''r'', ''s'', 27)"
    "walletAddress sampleLibs = sampleAddress"
    by (simp_all add: sampleLibs_def sampleFileSig_def)
  have d: "rewriteTags False [(''comment'', samplePayload)] sampleVideo = sampleDelivered"
    by (simp add: rewriteTags_def sampleVideo_def sampleDelivered_def)
  show ?thesis
    by (simp add: signVideoMain_def sampleVideoWorld_def writeCanonicalMetadata_def
          writeMetadata_def runFfmpeg_def sample_ffmpeg metadataArgs_def onlyComment_def
          showInt_sample canonical_hash[OF s] sg Let_def samplePayload_def[symmetric] d)
qed

section \<open>The negative verification step\<close>


section \<open>The delivered container of the whole-file signer\<close>

text \<open>
  C3 (as the code has it). Whole-file final container tags. When the whole-file signer
  finishes without an error, the delivered container at \<open>finalPath\<close> has the streams of
  the input video and the tags of the input video with the \<open>comment\<close> tag set to the
  payload JSON; the payload holds the timestamp, the digest of the canonical copy
  (every tag cleared, \<open>comment\<close> set to the timestamp), the wallet address and the
  signature of the two-field message. The tags the input had under other keys are
  kept, the canonical copy is only hashed, and both temporary files are gone.
\<close>

theorem delivered_container_tags:
  assumes "signVideoMain w t ts st0 = (st, None)"
  shows "\<exists>original sg.
           inputVideoFile st0 = Some original \<and>
           signMessage w (MsgText (buildFileMessage ts
              (sha256Hex w (fileBytes t
                 \<lparr>tags = [''comment'' \<mapsto> showInt ts], streams = streams original\<rparr>))))
             = Some sg \<and>
           finalPath st =
             Some \<lparr>tags = (tags original)(''comment'' \<mapsto>
                      payloadText ts
                        (sha256Hex w (fileBytes t
                           \<lparr>tags = [''comment'' \<mapsto> showInt ts], streams = streams original\<rparr>))
                        (walletAddress w) sg),
                   streams = streams original\<rparr> \<and>
           tempPath1 st = None \<and> tempPath2 st = None"
  using assms
  by (auto simp: signVideoMain_def writeCanonicalMetadata_def writeMetadata_def runFfmpeg_def
        metadataArgs_def onlyComment_def rewriteTags_def Let_def
      split: option.splits sum.splits if_splits)

theorem delivered_container_tags_witness:
  "signVideoMain sampleLibs sampleMedia 1700000000000 sampleVideoWorld =
     (sampleVideoWorld\<lparr>tempPath1 := None, tempPath2 := None,
        finalPath := Some sampleDelivered,
        videoHashTxt := Some (joinLines [''test.mp4'', ''1700000000000'', sampleFileHash])\<rparr>, None) \<and>
   (\<exists>original sg.
      inputVideoFile sampleVideoWorld = Some original \<and>
      signMessage sampleLibs (MsgText (buildFileMessage 1700000000000
         (sha256Hex sampleLibs (fileBytes sampleMedia
            \<lparr>tags = [''comment'' \<mapsto> showInt 1700000000000], streams = streams original\<rparr>))))
        = Some sg \<and>
      Some sampleDelivered =
        Some \<lparr>tags = (tags original)(''comment'' \<mapsto>
                 payloadText 1700000000000
                   (sha256Hex sampleLibs (fileBytes sampleMedia
                      \<lparr>tags = [''comment'' \<mapsto> showInt 1700000000000], streams = streams original\<rparr>))
                   (walletAddress sampleLibs) sg),
              streams = streams original\<rparr>)"
  using delivered_container_tags[OF sample_signVideo] sample_signVideo
  by simp

text \<open>
  C3, as stated, fails on the sample video: its \<open>artist\<close> tag is still on the delivered
  container, so the other tags were not cleared, and the \<open>comment\<close> tag holds the
  payload and not the timestamp, so no separate timestamp tag is kept beside it.
\<close>

theorem delivered_tags_counterexample:
  "snd (signVideoMain sampleLibs sampleMedia 1700000000000 sampleVideoWorld) = None \<and>
   tagOf (inputVideoFile sampleVideoWorld) ''artist'' = Some ''Someone'' \<and>
   tagOf (finalPath (fst (signVideoMain sampleLibs sampleMedia 1700000000000 sampleVideoWorld)))
     ''artist'' = Some ''Someone'' \<and>
   tagOf (finalPath (fst (signVideoMain sampleLibs sampleMedia 1700000000000 sampleVideoWorld)))
     ''comment'' = Some samplePayload \<and>
   samplePayload \<noteq> showInt 1700000000000"
proof -
  have a: "samplePayload \<noteq> showInt 1700000000000"
    by (simp add: showInt_sample samplePayload_def payloadText_def)
  have b: "tagOf (inputVideoFile sampleVideoWorld) ''artist'' = Some ''Someone''"
    by (simp add: tagOf_def sampleVideoWorld_def sampleVideo_def)
  show ?thesis
    unfolding sample_signVideo using a b by (simp add: tagOf_def sampleDelivered_def)
qed

section \<open>The signature of the manifest digest\<close>

text \<open>
  C4 (as the code has it). Detached certificate signature. When the frame script ends
  without an error, the signature it prints for the manifest is the wallet's signature
  of the raw bytes that the hex SHA-256 digest of the manifest file decodes to: no
  two-field message is built for it and the timestamp is no part of what is signed.
  The file \<open>manifest_hash.txt\<close> holds the video name, the run-start timestamp and the
  hex digest, one on each line.
\<close>

theorem certificate_signs_digest_bytes:
  assumes "main w rn st0 = (st, None)"
  shows "\<exists>fs sg. manifestFile st = Some (buildManifest w (clockMs rn) fs) \<and>
           signMessage w (MsgBytes (bufferFromHex
               (sha256Hex w (manifestJson w (buildManifest w (clockMs rn) fs))))) = Some sg \<and>
           certificateSignature st = Some sg \<and>
           manifestHashTxt st =
             Some (joinLines [''test.mp4'', showInt (clockMs rn),
                     sha256Hex w (manifestJson w (buildManifest w (clockMs rn) fs))])"
  using assms
  by (auto simp: main_def Let_def signManifestHashStep_def
           split: if_splits sum.splits option.splits)

theorem certificate_signs_digest_bytes_witness:
  "main sampleLibs sampleRun emptyWorld =
     ((sampleWorld sampleLibs)\<lparr>
         certificateSignature := Some (sampleSig (MsgBytes (bufferFromHex sampleManifestDigest))),
         manifestHashTxt := Some (joinLines [''test.mp4'', showInt 1000, sampleManifestDigest]),
         verifiableCopyWritten := True\<rparr>, None) \<and>
   (\<exists>fs sg. manifestFile (sampleWorld sampleLibs) = Some (buildManifest sampleLibs 1000 fs) \<and>
      signMessage sampleLibs (MsgBytes (bufferFromHex
         (sha256Hex sampleLibs (manifestJson sampleLibs (buildManifest sampleLibs 1000 fs)))))
        = Some sg \<and>
      sampleSig (MsgBytes (bufferFromHex sampleManifestDigest)) = sg \<and>
      joinLines [''test.mp4'', showInt 1000, sampleManifestDigest] =
        joinLines [''test.mp4'', showInt 1000,
          sha256Hex sampleLibs (manifestJson sampleLibs (buildManifest sampleLibs 1000 fs))])"
  using certificate_signs_digest_bytes[OF sample_main_sampleLibs] sample_main_sampleLibs
  by (simp add: sampleRun_def)

text \<open>
  C4, as stated, fails on the sample run: the printed signature is that of the digest
  bytes, and it differs from the signature of the two-field message over the run-start
  timestamp and the manifest digest.
\<close>

theorem certificate_message_counterexample:
  "certificateSignature (fst (main sampleLibs sampleRun emptyWorld))
     = signMessage sampleLibs (MsgBytes (bufferFromHex sampleManifestDigest)) \<and>
   certificateSignature (fst (main sampleLibs sampleRun emptyWorld))
     \<noteq> signMessage sampleLibs (MsgText (buildFileMessage 1000 sampleManifestDigest))"
  by (simp add: sample_main_sampleLibs)
     (simp add: sampleLibs_def sampleSig_def byteHex_def hexDigitChar_simps)

section \<open>Exchanged file names\<close>

text \<open>
  C5. Order sensitivity. Take a directory whose entries have distinct names and a
  manifest of at least two frames that the verify step accepts for it. With the stored
  file names of the first two records exchanged and every digest left as it was, the
  frame-set check rejects at index 0 with the file-name mismatch, and so does the whole
  verify step, whatever libraries it runs with: the rejection comes from the comparison
  against the sorted listing, before any file is read or any digest recomputed.
\<close>

theorem swapped_names_rejected:
  assumes "distinct (map entryName (inputFrames st))"
    and "verifyStep w st = Inr m"
    and "2 \<le> length (frames m)"
  shows "frameSetCheck (inputFrames st) (m\<lparr>frames := swapFilenames (frames m)\<rparr>)
           = Inl (FrameFilenameMismatch 0) \<and>
         verifyStep w' (st\<lparr>manifestFile := Some (m\<lparr>frames := swapFilenames (frames m)\<rparr>)\<rparr>)
           = Inl (FrameFilenameMismatch 0)"
proof -
  from assms(3) obtain f1 f2 fs where fr: "frames m = f1 # f2 # fs"
    by (cases "frames m"; cases "tl (frames m)") auto
  have names: "map filename (frames m) = listPngFilesSorted (inputFrames st)"
    using verifyStep_Inr[OF assms(2)] frameSetCheck_Inr by blast
  then have ns: "listPngFilesSorted (inputFrames st) = filename f1 # filename f2 # map filename fs"
    using fr by simp
  have "filename f1 \<noteq> filename f2"
    using listing_distinct[OF assms(1)] ns by auto
  then have c: "frameSetCheck (inputFrames st) (m\<lparr>frames := swapFilenames (frames m)\<rparr>)
           = Inl (FrameFilenameMismatch 0)"
    using fr ns names by (auto simp: frameSetCheck_def Let_def)
  then show ?thesis by (simp add: verifyStep_def)
qed

theorem swapped_names_rejected_witness:
  "distinct (map entryName (inputFrames (sampleWorld sampleLibs))) \<and>
   verifyStep sampleLibs (sampleWorld sampleLibs)
     = Inr (buildManifest sampleLibs 1000 (sampleFrames sampleLibs)) \<and>
   2 \<le> length (frames (buildManifest sampleLibs 1000 (sampleFrames sampleLibs))) \<and>
   map filename (swapFilenames (sampleFrames sampleLibs))
     = [''frame_000002.png'', ''frame_000001.PNG''] \<and>
   map frameHashSha256 (swapFilenames (sampleFrames sampleLibs))
     = map frameHashSha256 (sampleFrames sampleLibs) \<and>
   frameSetCheck (inputFrames (sampleWorld sampleLibs))
     ((buildManifest sampleLibs 1000 (sampleFrames sampleLibs))
        \<lparr>frames := swapFilenames (frames (buildManifest sampleLibs 1000 (sampleFrames sampleLibs)))\<rparr>)
     = Inl (FrameFilenameMismatch 0) \<and>
   verifyStep failingLibs
     ((sampleWorld sampleLibs)\<lparr>manifestFile := Some
        ((buildManifest sampleLibs 1000 (sampleFrames sampleLibs))
           \<lparr>frames := swapFilenames (frames (buildManifest sampleLibs 1000 (sampleFrames sampleLibs)))\<rparr>)\<rparr>)
     = Inl (FrameFilenameMismatch 0)"
proof -
  have h1: "distinct (map entryName (inputFrames (sampleWorld sampleLibs)))"
    by (simp add: sampleWorld_def sample_distinct)
  have h2: "verifyStep sampleLibs (sampleWorld sampleLibs)
     = Inr (buildManifest sampleLibs 1000 (sampleFrames sampleLibs))"
    by (rule sample_signLoop(3)[OF sample_libsSign sample_libsRecover])
  have h3: "2 \<le> length (frames (buildManifest sampleLibs 1000 (sampleFrames sampleLibs)))"
    using sample_signLoop(2)[OF sample_libsSign sample_libsRecover]
    by (simp add: buildManifest_def)
  have h4: "map filename (swapFilenames (sampleFrames sampleLibs))
     = [''frame_000002.png'', ''frame_000001.PNG'']"
    "map frameHashSha256 (swapFilenames (sampleFrames sampleLibs))
     = map frameHashSha256 (sampleFrames sampleLibs)"
    by (simp_all add: sample_frames sampleRecord_def)
  show ?thesis
    using swapped_names_rejected[OF h1 h2 h3, of failingLibs] h1 h2 h3 h4 by simp
qed

section \<open>Shape checks and the signature step\<close>

text \<open>
  C6 (as the code has it). Shape validation precedes the signature check. In the
  whole-file verifier, for payload strings whose timestamp or signer address has not
  the required shape, the run fails with the error of the hash step (the tool failing,
  or a digest mismatch) or with the malformed-shape error, and its result does not
  depend on the recovery function, which is never reached. When the hash step passes,
  the error is the malformed timestamp for a timestamp that is not ten or more decimal
  digits, and the malformed signer address for an address that is not \<open>0x\<close> and forty
  hex digits behind a well-shaped timestamp.
\<close>

theorem shape_before_signature:
  "(\<not> timestampShape ts \<or> \<not> addressShape a \<longrightarrow>
      (verifyFields w t c ts h a sg = Inl FfmpegFailed \<or>
       verifyFields w t c ts h a sg = Inl FileHashMismatch \<or>
       verifyFields w t c ts h a sg = Inl MalformedTimestamp \<or>
       verifyFields w t c ts h a sg = Inl MalformedSignerAddress) \<and>
      verifyFields (w\<lparr>verifyMessage := vm\<rparr>) t c ts h a sg = verifyFields w t c ts h a sg) \<and>
   (hashCompareStep w t c ts h = Inr () \<and> \<not> timestampShape ts \<longrightarrow>
      verifyFields w t c ts h a sg = Inl MalformedTimestamp) \<and>
   (hashCompareStep w t c ts h = Inr () \<and> timestampShape ts \<and> \<not> addressShape a \<longrightarrow>
      verifyFields w t c ts h a sg = Inl MalformedSignerAddress)"
  by (auto simp: verifyFields_def hashCompare_cases split: sum.splits)

theorem shape_before_signature_witness:
  "\<not> addressShape ''not-an-address'' \<and> timestampShape ''1700000000000'' \<and>
   hashCompareStep sampleLibs sampleMedia sampleDelivered ''1700000000000'' sampleFileHash = Inr () \<and>
   verifyFields sampleLibs sampleMedia sampleDelivered ''1700000000000'' sampleFileHash
     ''not-an-address'' sampleFileSig = Inl MalformedSignerAddress \<and>
   verifyFields (sampleLibs\<lparr>verifyMessage := (\<lambda>m s. None)\<rparr>) sampleMedia sampleDelivered
     ''1700000000000'' sampleFileHash ''not-an-address'' sampleFileSig
     = Inl MalformedSignerAddress \<and>
   \<not> timestampShape ''17'' \<and>
   hashCompareStep sampleLibs sampleMedia sampleDelivered ''17'' ''31377c6a6b'' = Inr () \<and>
   verifyFields sampleLibs sampleMedia sampleDelivered ''17'' ''31377c6a6b'' sampleAddress
     sampleFileSig = Inl MalformedTimestamp"
proof -
  have h1: "hashCompareStep sampleLibs sampleMedia sampleDelivered ''1700000000000'' sampleFileHash
              = Inr ()"
    by (simp add: sample_hashCompare sampleDelivered_def)
  have "fileBytes sampleMedia (rewriteTags True [(''comment'', ''17'')] sampleDelivered) = ''17|jk''"
    by (simp add: sampleMedia_def rewriteTags_def tagValue_def sampleDelivered_def)
  then have h2: "hashCompareStep sampleLibs sampleMedia sampleDelivered ''17'' ''31377c6a6b'' = Inr ()"
    using other_hashes(3) by (simp add: hashCompare_cases sample_ffmpeg) (simp add: sampleLibs_def)
  show ?thesis
    using shape_before_signature[of "''1700000000000''" "''not-an-address''" sampleLibs sampleMedia
            sampleDelivered sampleFileHash sampleFileSig "\<lambda>m s. None"]
          shape_before_signature[of "''17''" sampleAddress sampleLibs sampleMedia
            sampleDelivered "''31377c6a6b''" sampleFileSig "\<lambda>m s. None"]
          h1 h2 shape_sample
    by simp
qed

text \<open>
  C6, as stated, fails on a payload whose signer address is \<open>not-an-address\<close> and whose
  stored digest is wrong: the hash comparison runs before the shape checks and the run
  ends with the digest mismatch, not with a malformed-shape error.
\<close>

theorem shape_error_counterexample:
  "fieldString badPayloadJson ''signerAddress'' = ''not-an-address'' \<and>
   \<not> addressShape ''not-an-address'' \<and>
   mainWith sampleLibs sampleMedia (Some badVideo) = Inl FileHashMismatch"
proof -
  have f: "fieldString badPayloadJson ''timestampMs'' = ''1700000000000''"
    "fieldString badPayloadJson ''fileHashSha256'' = ''00''"
    "fieldString badPayloadJson ''signerAddress'' = ''not-an-address''"
    by (simp_all add: fieldString_def badPayloadJson_def showInt_sample)
  have "hashCompareStep sampleLibs sampleMedia badVideo ''1700000000000'' ''00'' = Inl FileHashMismatch"
    using other_hashes(1) by (simp add: sample_hashCompare badVideo_def)
  then show ?thesis
    using f shape_sample(3) by (simp add: mainWith_def bad_payload_read verifyFields_def)
qed

section \<open>A failed signing loop writes no manifest\<close>

text \<open>
  C7. All-or-nothing manifest commit. If the signing loop fails for some frame (a read
  that fails, or a signing call that raises), \<open>main\<close> ends with that error and leaves
  the manifest path as it found it: nothing is written. And whenever a run changes the
  manifest path, the signing loop has returned one record for every listed frame and
  the manifest written holds exactly these records.
\<close>

theorem manifest_all_or_nothing:
  "(videoPresent st0 \<and> extractedFrames rn = Some dir \<and>
    signLoop w dir (clockMs rn) 0 (listPngFilesSorted dir) [] = Inl e \<longrightarrow>
      main w rn st0 = (st0\<lparr>inputFrames := dir\<rparr>, Some e) \<and>
      manifestFile (fst (main w rn st0)) = manifestFile st0) \<and>
   (manifestFile (fst (main w rn st0)) \<noteq> manifestFile st0 \<longrightarrow>
      (\<exists>d fs. extractedFrames rn = Some d \<and>
         signLoop w d (clockMs rn) 0 (listPngFilesSorted d) [] = Inr fs \<and>
         length fs = length (listPngFilesSorted d) \<and>
         manifestFile (fst (main w rn st0)) = Some (buildManifest w (clockMs rn) fs)))"
proof (intro conjI impI)
  assume a: "videoPresent st0 \<and> extractedFrames rn = Some dir \<and>
    signLoop w dir (clockMs rn) 0 (listPngFilesSorted dir) [] = Inl e"
  then have "listPngFilesSorted dir \<noteq> []" by auto
  with a show "main w rn st0 = (st0\<lparr>inputFrames := dir\<rparr>, Some e)"
    by (simp add: main_def Let_def)
  then show "manifestFile (fst (main w rn st0)) = manifestFile st0" by simp
next
  assume "manifestFile (fst (main w rn st0)) \<noteq> manifestFile st0"
  then show "\<exists>d fs. extractedFrames rn = Some d \<and>
         signLoop w d (clockMs rn) 0 (listPngFilesSorted d) [] = Inr fs \<and>
         length fs = length (listPngFilesSorted d) \<and>
         manifestFile (fst (main w rn st0)) = Some (buildManifest w (clockMs rn) fs)"
    by (rule main_manifest_changed)
qed

theorem manifest_all_or_nothing_witness:
  "videoPresent emptyWorld \<and> extractedFrames brokenRun = Some brokenDir \<and>
   signLoop sampleLibs brokenDir (clockMs brokenRun) 0 (listPngFilesSorted brokenDir) []
     = Inl (ReadFailed ''frame_000002.png'') \<and>
   main sampleLibs brokenRun emptyWorld
     = (emptyWorld\<lparr>inputFrames := brokenDir\<rparr>, Some (ReadFailed ''frame_000002.png'')) \<and>
   manifestFile (fst (main sampleLibs brokenRun emptyWorld)) = None \<and>
   signLoop failingLibs sampleDir (clockMs sampleRun) 0 (listPngFilesSorted sampleDir) []
     = Inl LibraryError \<and>
   main failingLibs sampleRun emptyWorld = (emptyWorld\<lparr>inputFrames := sampleDir\<rparr>, Some LibraryError) \<and>
   manifestFile (fst (main sampleLibs sampleRun emptyWorld)) \<noteq> manifestFile emptyWorld \<and>
   (\<exists>d fs. extractedFrames sampleRun = Some d \<and>
      signLoop sampleLibs d (clockMs sampleRun) 0 (listPngFilesSorted d) [] = Inr fs \<and>
      length fs = length (listPngFilesSorted d) \<and>
      manifestFile (fst (main sampleLibs sampleRun emptyWorld))
        = Some (buildManifest sampleLibs (clockMs sampleRun) fs))"
proof -
  have h1: "videoPresent emptyWorld" and h2: "extractedFrames brokenRun = Some brokenDir"
    and h3: "extractedFrames sampleRun = Some sampleDir"
    and h4: "manifestFile emptyWorld = None"
    by (simp_all add: emptyWorld_def brokenRun_def sampleRun_def)
  have h5: "signLoop sampleLibs brokenDir (clockMs brokenRun) 0 (listPngFilesSorted brokenDir) []
     = Inl (ReadFailed ''frame_000002.png'')"
    using broken_signLoop by (simp add: brokenRun_def)
  have h6: "signLoop failingLibs sampleDir (clockMs sampleRun) 0 (listPngFilesSorted sampleDir) []
     = Inl LibraryError"
    using failing_signLoop by (simp add: sampleRun_def)
  have h7: "manifestFile (fst (main sampleLibs sampleRun emptyWorld)) \<noteq> manifestFile emptyWorld"
    by (simp add: sample_main_sampleLibs h4 sampleWorld_def)
  show ?thesis
    using manifest_all_or_nothing[of emptyWorld brokenRun brokenDir sampleLibs
            "ReadFailed ''frame_000002.png''"]
          manifest_all_or_nothing[of emptyWorld sampleRun sampleDir failingLibs LibraryError]
          manifest_all_or_nothing[of emptyWorld sampleRun sampleDir sampleLibs LibraryError]
          h1 h2 h3 h4 h5 h6 h7
    by simp
qed

section \<open>Reading the payload\<close>




section \<open>The two flags of the signature check\<close>

text \<open>
  C9. Acceptance by \<open>verifyEip191\<close>. Whenever it returns: with no expected public key
  the public-key flag is true and both flags hold exactly when the recovered address
  equals the expected one up to letter case (JavaScript takes the empty string for no
  key as well); with an expected public key (a non-empty string) both flags hold
  exactly when the recovered address and the recovered public key equal the expected
  ones up to letter case; the recovered values are those of the library. The loop of
  the frame verifier accepts a list of records only if \<open>verifyEip191\<close> returned with
  both flags true for every record of the list; it rejects every list that holds a
  record with a false flag, and when the records before that one pass and its own
  digest and message agree, the error is the failed signature check of that record.
\<close>

theorem verify_acceptance:
  "(verifyEip191 w a msg sg None = Inr vd \<longrightarrow>
      pubOk vd \<and>
      (addrOk vd \<and> pubOk vd) = (toLowerCase (recoveredAddress vd) = toLowerCase a)) \<and>
   (verifyEip191 w a msg sg (Some []) = Inr ve \<longrightarrow> pubOk ve) \<and>
   (k \<noteq> [] \<and> verifyEip191 w a msg sg (Some k) = Inr vk \<longrightarrow>
      (addrOk vk \<and> pubOk vk) =
        (toLowerCase (recoveredAddress vk) = toLowerCase a \<and>
         toLowerCase (recoveredPublicKey vk) = toLowerCase k)) \<and>
   (verifyEip191 w a msg sg pk = Inr vp \<longrightarrow>
      verifyMessage w (MsgText msg) sg = Some (recoveredAddress vp) \<and>
      recoverPublicKey w (hashMessage w (MsgText msg)) sg = Some (recoveredPublicKey vp)) \<and>
   (verifyLoop w dir ts a pk fs = Inr () \<longrightarrow>
      (\<forall>f \<in> set fs.
         \<exists>v. verifyEip191 w a (message f) (signature f) pk = Inr v \<and> addrOk v \<and> pubOk v)) \<and>
   (g \<in> set gs \<and> verifyEip191 w a (message g) (signature g) pk = Inr vg \<and>
    (\<not> addrOk vg \<or> \<not> pubOk vg) \<longrightarrow>
      (\<exists>e. verifyLoop w dir ts a pk gs = Inl e)) \<and>
   (verifyLoop w dir ts a pk pre = Inr () \<and>
    readFileBuffer dir (filename r) = Inr buf \<and> sha256Hex w buf = frameHashSha256 r \<and>
    buildMessageString ts (frameNumber r) (sha256Hex w buf) = message r \<and>
    verifyEip191 w a (message r) (signature r) pk = Inr vr \<and>
    (\<not> addrOk vr \<or> \<not> pubOk vr) \<longrightarrow>
      verifyLoop w dir ts a pk (pre @ r # post) = Inl (SignatureVerificationFailed (filename r)))"
proof (intro conjI impI)
  assume "verifyEip191 w a msg sg None = Inr vd"
  then show "pubOk vd"
    and "(addrOk vd \<and> pubOk vd) = (toLowerCase (recoveredAddress vd) = toLowerCase a)"
    by (auto simp: verifyEip191_def split: option.splits)
next
  assume "verifyEip191 w a msg sg (Some []) = Inr ve"
  then show "pubOk ve"
    by (auto simp: verifyEip191_def split: option.splits)
next
  assume "k \<noteq> [] \<and> verifyEip191 w a msg sg (Some k) = Inr vk"
  then show "(addrOk vk \<and> pubOk vk) =
        (toLowerCase (recoveredAddress vk) = toLowerCase a \<and>
         toLowerCase (recoveredPublicKey vk) = toLowerCase k)"
    by (auto simp: verifyEip191_def split: option.splits)
next
  assume "verifyEip191 w a msg sg pk = Inr vp"
  then show "verifyMessage w (MsgText msg) sg = Some (recoveredAddress vp)"
    and "recoverPublicKey w (hashMessage w (MsgText msg)) sg = Some (recoveredPublicKey vp)"
    by (auto simp: verifyEip191_def split: option.splits)
next
  assume "verifyLoop w dir ts a pk fs = Inr ()"
  then show "\<forall>f \<in> set fs.
         \<exists>v. verifyEip191 w a (message f) (signature f) pk = Inr v \<and> addrOk v \<and> pubOk v"
    using verifyLoop_accepts_all by blast
next
  assume h: "g \<in> set gs \<and> verifyEip191 w a (message g) (signature g) pk = Inr vg \<and>
    (\<not> addrOk vg \<or> \<not> pubOk vg)"
  show "\<exists>e. verifyLoop w dir ts a pk gs = Inl e"
  proof (cases "verifyLoop w dir ts a pk gs")
    case (Inl e)
    then show ?thesis by blast
  next
    case (Inr u)
    then have "verifyLoop w dir ts a pk gs = Inr ()" by simp
    from verifyLoop_accepts_all[OF this, of g] h show ?thesis by auto
  qed
next
  assume "verifyLoop w dir ts a pk pre = Inr () \<and>
    readFileBuffer dir (filename r) = Inr buf \<and> sha256Hex w buf = frameHashSha256 r \<and>
    buildMessageString ts (frameNumber r) (sha256Hex w buf) = message r \<and>
    verifyEip191 w a (message r) (signature r) pk = Inr vr \<and>
    (\<not> addrOk vr \<or> \<not> pubOk vr)"
  then show "verifyLoop w dir ts a pk (pre @ r # post)
               = Inl (SignatureVerificationFailed (filename r))"
    by (auto simp: verifyLoop_append Let_def)
qed

theorem verify_acceptance_witness:
  "verifyEip191 sampleLibs mixedAddress ''m'' (sampleSig (MsgText ''m'')) None = Inr sampleVerdict \<and>
   pubOk sampleVerdict \<and> addrOk sampleVerdict \<and>
   toLowerCase (recoveredAddress sampleVerdict) = toLowerCase mixedAddress \<and>
   ''0x05'' \<noteq> [] \<and>
   verifyEip191 sampleLibs mixedAddress ''m'' (sampleSig (MsgText ''m'')) (Some ''0x05'')
     = Inr (sampleVerdict\<lparr>pubOk := False\<rparr>) \<and>
   toLowerCase (recoveredPublicKey (sampleVerdict\<lparr>pubOk := False\<rparr>)) \<noteq> toLowerCase ''0x05'' \<and>
   verifyMessage sampleLibs (MsgText ''m'') (sampleSig (MsgText ''m'')) = Some sampleAddress \<and>
   verifyLoop sampleLibs sampleDir 1000 sampleAddress (Some ''0x04cD'')
     [sampleRecord 1 ''frame_000001.PNG'' ''hi'', sampleRecord 2 ''frame_000002.png'' ''jk'']
     = Inr () \<and>
   (\<exists>v. verifyEip191 sampleLibs sampleAddress
           (message (sampleRecord 2 ''frame_000002.png'' ''jk''))
           (signature (sampleRecord 2 ''frame_000002.png'' ''jk'')) (Some ''0x04cD'') = Inr v \<and>
        addrOk v \<and> pubOk v) \<and>
   forgedRecord \<in> set [sampleRecord 1 ''frame_000001.PNG'' ''hi'', forgedRecord] \<and>
   verifyEip191 sampleLibs sampleAddress (message forgedRecord) (signature forgedRecord)
     (Some ''0x04cD'')
     = Inr \<lparr>addrOk = False, pubOk = False, recoveredAddress = otherAddress,
            recoveredPublicKey = ''0x04''\<rparr> \<and>
   (\<exists>e. verifyLoop sampleLibs sampleDir 1000 sampleAddress (Some ''0x04cD'')
           [sampleRecord 1 ''frame_000001.PNG'' ''hi'', forgedRecord] = Inl e) \<and>
   verifyLoop sampleLibs sampleDir 1000 sampleAddress (Some ''0x04cD'')
     ([sampleRecord 1 ''frame_000001.PNG'' ''hi''] @ forgedRecord # [])
     = Inl (SignatureVerificationFailed ''frame_000002.png'')"
proof -
  have fn: "filename forgedRecord = ''frame_000002.png''"
    by (simp add: forgedRecord_def sampleRecord_def)
  have a: "verifyEip191 sampleLibs sampleAddress
           (message (sampleRecord 2 ''frame_000002.png'' ''jk''))
           (signature (sampleRecord 2 ''frame_000002.png'' ''jk'')) (Some ''0x04cD'')
        = Inr sampleVerdict"
    by (simp add: verifyEip191_def sampleLibs_def sampleRecord_def sampleVerdict_def)
  show ?thesis
    using verify_acceptance[where w = sampleLibs and a = mixedAddress and msg = "''m''"
            and sg = "sampleSig (MsgText ''m'')" and vd = sampleVerdict and k = "''0x05''"
            and vk = "sampleVerdict\<lparr>pubOk := False\<rparr>" and pk = None and vp = sampleVerdict
            and fs = "[]" and gs = "[]" and pre = "[]"]
          verify_acceptance[where w = sampleLibs and a = sampleAddress and pk = "Some ''0x04cD''"
            and dir = sampleDir and ts = 1000
            and fs = "[sampleRecord 1 ''frame_000001.PNG'' ''hi'',
                       sampleRecord 2 ''frame_000002.png'' ''jk'']"
            and g = forgedRecord
            and gs = "[sampleRecord 1 ''frame_000001.PNG'' ''hi'', forgedRecord]"
            and vg = "\<lparr>addrOk = False, pubOk = False, recoveredAddress = otherAddress,
                        recoveredPublicKey = ''0x04''\<rparr>"
            and pre = "[sampleRecord 1 ''frame_000001.PNG'' ''hi'']" and r = forgedRecord
            and buf = "''jk''" and post = "[]"
            and vr = "\<lparr>addrOk = False, pubOk = False, recoveredAddress = otherAddress,
                        recoveredPublicKey = ''0x04''\<rparr>"]
          sample_verdict sample_verifyLoop sample_verifyLoop_first forged_verdict forged_checks fn a
    by (simp add: sampleVerdict_def del: verifyLoop.simps)
qed

section \<open>Letter case in the whole-file verifier\<close>

text \<open>
  C10 (as the code has it). Case-insensitive comparisons in the whole-file verifier.
  The hash step gives the same result for two stored digests that are equal up to
  letter case. A payload that is accepted is still accepted with a signer address that
  differs in letter case only and has the address shape. With a stored digest that
  differs in letter case only, the hash step and the shape steps pass as before and the
  result of the run is that of the signature step over the message rebuilt with the
  digest as it is stored.
\<close>

theorem case_insensitive_comparisons:
  "(toLowerCase h' = toLowerCase h \<longrightarrow>
      hashCompareStep w t c ts h' = hashCompareStep w t c ts h) \<and>
   (toLowerCase a' = toLowerCase a \<and> addressShape a' \<and>
    verifyFields w t c ts h a sg = Inr () \<longrightarrow> verifyFields w t c ts h a' sg = Inr ()) \<and>
   (toLowerCase h' = toLowerCase h \<and> verifyFields w t c ts h a sg = Inr () \<longrightarrow>
      verifyFields w t c ts h' a sg = signatureStep w ts h' a sg)"
  by (auto simp: verifyFields_def hashCompare_cases signatureStep_def Let_def
           split: sum.splits if_splits option.splits)

theorem case_insensitive_comparisons_witness:
  "toLowerCase upperFileHash = toLowerCase sampleFileHash \<and>
   hashCompareStep sampleLibs sampleMedia sampleDelivered ''1700000000000'' upperFileHash = Inr () \<and>
   toLowerCase mixedAddress = toLowerCase sampleAddress \<and> addressShape mixedAddress \<and>
   verifyFields sampleLibs sampleMedia sampleDelivered ''1700000000000'' sampleFileHash
     sampleAddress sampleFileSig = Inr () \<and>
   verifyFields sampleLibs sampleMedia sampleDelivered ''1700000000000'' sampleFileHash
     mixedAddress sampleFileSig = Inr () \<and>
   verifyFields sampleLibs sampleMedia sampleDelivered ''1700000000000'' upperFileHash
     sampleAddress sampleFileSig
     = signatureStep sampleLibs ''1700000000000'' upperFileHash sampleAddress sampleFileSig"
proof -
  have h: "hashCompareStep sampleLibs sampleMedia sampleDelivered ''1700000000000'' sampleFileHash
             = Inr ()"
    by (simp add: sample_hashCompare sampleDelivered_def)
  show ?thesis
    using case_insensitive_comparisons[of upperFileHash sampleFileHash sampleLibs sampleMedia
            sampleDelivered "''1700000000000''" mixedAddress sampleAddress sampleFileSig]
          lower_hash lower_address shape_sample(2) sample_verifyFields h
    by simp
qed

text \<open>
  C10, as stated, fails for the digest: the sample payload is accepted, and the same
  payload with the digest in upper case passes the hash comparison and is rejected by
  the signature step, since the message is rebuilt from the stored spelling and the
  signature was made over the lower-case one.
\<close>

theorem digest_case_counterexample:
  "toLowerCase upperFileHash = toLowerCase sampleFileHash \<and>
   verifyFields sampleLibs sampleMedia sampleDelivered ''1700000000000'' sampleFileHash
     sampleAddress sampleFileSig = Inr () \<and>
   verifyFields sampleLibs sampleMedia sampleDelivered ''1700000000000'' upperFileHash
     sampleAddress sampleFileSig = Inl SignatureDoesNotMatch"
proof -
  have "verifyFields sampleLibs sampleMedia sampleDelivered ''1700000000000'' upperFileHash
     sampleAddress sampleFileSig = Inl SignatureDoesNotMatch"
    by (simp add: verifyFields_def sample_hashCompare sampleDelivered_def shape_sample lower_hash
          upper_signatureStep)
  then show ?thesis using lower_hash sample_verifyFields by simp
qed

end
